theory Spec2Isabelle
  imports Complex_Main "HOL-Library.AList"
begin

section \<open>JavaScript numbers and the built-ins the parser calls\<close>

text \<open>
  A JavaScript number is NaN, an infinity, or a finite double; a finite double is
  represented by its rational value (the sign of zero is not kept).
\<close>

datatype number = NaN | Finite rat | PosInfinity | NegInfinity

definition isNaN :: "number \<Rightarrow> bool" where
  "isNaN v = (v = NaN)"

text \<open>\<^verbatim>\<open>Math.round\<close>: the nearest integer, a tie going up.\<close>

fun mathRound :: "number \<Rightarrow> number" where
  "mathRound (Finite q) = Finite (of_int \<lfloor>q + 1 / 2\<rfloor>)"
| "mathRound v = v"

fun mathMin :: "number \<Rightarrow> number \<Rightarrow> number" where
  "mathMin NaN b = NaN"
| "mathMin a NaN = NaN"
| "mathMin NegInfinity b = NegInfinity"
| "mathMin a NegInfinity = NegInfinity"
| "mathMin PosInfinity b = b"
| "mathMin a PosInfinity = a"
| "mathMin (Finite p) (Finite q) = Finite (min p q)"

fun mathMax :: "number \<Rightarrow> number \<Rightarrow> number" where
  "mathMax NaN b = NaN"
| "mathMax a NaN = NaN"
| "mathMax PosInfinity b = PosInfinity"
| "mathMax a PosInfinity = PosInfinity"
| "mathMax NegInfinity b = b"
| "mathMax a NegInfinity = a"
| "mathMax (Finite p) (Finite q) = Finite (max p q)"

definition isDigit :: "char \<Rightarrow> bool" where
  "isDigit c = (c \<in> set ''0123456789'')"

text \<open>The ASCII members of the white space that \<^verbatim>\<open>parseFloat\<close> and \<^verbatim>\<open>parseInt\<close> skip.\<close>

definition isWhiteSpace :: "char \<Rightarrow> bool" where
  "isWhiteSpace c = (c \<in> set [CHR 0x09, CHR 0x0A, CHR 0x0B, CHR 0x0C, CHR 0x0D, CHR 0x20])"

definition digitVal :: "char \<Rightarrow> nat" where
  "digitVal c = of_char c - 48"

definition digitsVal :: "string \<Rightarrow> nat" where
  "digitsVal ds = foldl (\<lambda>a c. 10 * a + digitVal c) 0 ds"

fun stripSign :: "string \<Rightarrow> bool \<times> string" where
  "stripSign [] = (False, [])"
| "stripSign (c # cs) =
     (if c = CHR ''-'' then (True, cs) else if c = CHR ''+'' then (False, cs) else (False, c # cs))"

text \<open>The value of an exponent part at the head of the string; 0 when there is none.\<close>

definition exponentPart :: "string \<Rightarrow> int" where
  "exponentPart s =
     (case s of
        [] \<Rightarrow> 0
      | c # cs \<Rightarrow>
          if c = CHR ''e'' \<or> c = CHR ''E'' then
            (let (neg, r) = stripSign cs; ds = takeWhile isDigit r
             in if ds = [] then 0 else if neg then - int (digitsVal ds) else int (digitsVal ds))
          else 0)"

definition scale10 :: "rat \<Rightarrow> int \<Rightarrow> rat" where
  "scale10 q e = (if 0 \<le> e then q * 10 ^ nat e else q / 10 ^ nat (- e))"

definition unsignedDecimal :: "string \<Rightarrow> number" where
  "unsignedDecimal s =
     (if take 8 s = ''Infinity'' then PosInfinity
      else
        let ip = takeWhile isDigit s; r1 = dropWhile isDigit s
        in case r1 of
             [] \<Rightarrow> if ip = [] then NaN else Finite (of_nat (digitsVal ip))
           | c # r2 \<Rightarrow>
               if c = CHR ''.'' then
                 (let fp = takeWhile isDigit r2; r3 = dropWhile isDigit r2
                  in if ip = [] \<and> fp = [] then NaN
                     else Finite (scale10 (of_nat (digitsVal (ip @ fp)))
                                   (exponentPart r3 - int (length fp))))
               else if ip = [] then NaN
               else Finite (scale10 (of_nat (digitsVal ip)) (exponentPart r1)))"

text \<open>
  \<^verbatim>\<open>parseFloat\<close>: leading white space is skipped, the longest prefix that is a decimal
  literal is read, and NaN is the result when there is none. The model returns the exact
  value of the literal: the rounding to the nearest double and the overflow to an infinity
  are not modelled, and of the white space only the ASCII characters are skipped. The
  literals that the examples evaluate are small integers, which are exact.
\<close>

definition parseFloat :: "string \<Rightarrow> number" where
  "parseFloat s =
     (let (neg, r) = stripSign (dropWhile isWhiteSpace s)
      in case unsignedDecimal r of
           NaN \<Rightarrow> NaN
         | Finite q \<Rightarrow> Finite (if neg then - q else q)
         | PosInfinity \<Rightarrow> (if neg then NegInfinity else PosInfinity)
         | NegInfinity \<Rightarrow> NegInfinity)"

text \<open>\<^verbatim>\<open>parseInt(s, 10)\<close>; \<open>None\<close> stands for NaN. The integer is exact; the rounding
  of a long literal to a double is not modelled.\<close>

definition parseInt10 :: "string \<Rightarrow> int option" where
  "parseInt10 s =
     (let (neg, r) = stripSign (dropWhile isWhiteSpace s); ds = takeWhile isDigit r
      in if ds = [] then None
         else Some (if neg then - int (digitsVal ds) else int (digitsVal ds)))"

definition hexDigit :: "nat \<Rightarrow> char" where
  "hexDigit d = ''0123456789abcdef'' ! d"

fun hexNat :: "nat \<Rightarrow> string" where
  "hexNat n = (if n < 16 then [hexDigit n] else hexNat (n div 16) @ [hexDigit (n mod 16)])"

text \<open>
  \<^verbatim>\<open>x.toString(16)\<close>. Only integers and NaN reach it in \<open>rgbToHex\<close>; the digits after
  the point of a fraction are not modelled.
\<close>

fun toString16 :: "number \<Rightarrow> string" where
  "toString16 NaN = ''NaN''"
| "toString16 PosInfinity = ''Infinity''"
| "toString16 NegInfinity = ''-Infinity''"
| "toString16 (Finite q) =
     (if q < 0 then ''-'' @ hexNat (nat \<lfloor>- q\<rfloor>) else hexNat (nat \<lfloor>q\<rfloor>))"

definition padStart :: "nat \<Rightarrow> char \<Rightarrow> string \<Rightarrow> string" where
  "padStart n c s = replicate (n - length s) c @ s"

definition startsWith :: "string \<Rightarrow> string \<Rightarrow> bool" where
  "startsWith s p = (take (length p) s = p)"

definition endsWith :: "string \<Rightarrow> string \<Rightarrow> bool" where
  "endsWith s p = (length p \<le> length s \<and> drop (length s - length p) s = p)"

section \<open>The DOM that \<^verbatim>\<open>DOMParser.parseFromString\<close> returns\<close>

record attr =
  attr_namespaceURI :: "string option"
  attr_name :: string
  attr_localName :: string
  attr_value :: string

datatype dom =
    Element "string option" string string "attr list" "dom list"
  | Text string

text \<open>The arguments of \<open>Element\<close>: namespace URI, qualified (tag) name, local name,
  attributes, child nodes.\<close>

fun namespaceURI :: "dom \<Rightarrow> string option" where
  "namespaceURI (Element ns tag lname ats cs) = ns"
| "namespaceURI (Text s) = None"

fun tagName :: "dom \<Rightarrow> string" where
  "tagName (Element ns tag lname ats cs) = tag"
| "tagName (Text s) = []"

fun localName :: "dom \<Rightarrow> string" where
  "localName (Element ns tag lname ats cs) = lname"
| "localName (Text s) = []"

fun attributes :: "dom \<Rightarrow> attr list" where
  "attributes (Element ns tag lname ats cs) = ats"
| "attributes (Text s) = []"

fun childNodes :: "dom \<Rightarrow> dom list" where
  "childNodes (Element ns tag lname ats cs) = cs"
| "childNodes (Text s) = []"

fun isElement :: "dom \<Rightarrow> bool" where
  "isElement (Element ns tag lname ats cs) = True"
| "isElement (Text s) = False"

text \<open>\<^verbatim>\<open>el.children\<close>: the child elements.\<close>

definition children :: "dom \<Rightarrow> dom list" where
  "children e = filter isElement (childNodes e)"

text \<open>An element followed by its descendant elements, in document order.\<close>

fun elements :: "dom \<Rightarrow> dom list" where
  "elements (Text s) = []"
| "elements (Element ns tag lname ats cs) = Element ns tag lname ats cs # concat (map elements cs)"

definition descendants :: "dom \<Rightarrow> dom list" where
  "descendants e = concat (map elements (childNodes e))"

fun textContent :: "dom \<Rightarrow> string" where
  "textContent (Text s) = s"
| "textContent (Element ns tag lname ats cs) = concat (map textContent cs)"

definition getAttribute :: "dom \<Rightarrow> string \<Rightarrow> string option" where
  "getAttribute e q = map_option attr_value (find (\<lambda>a. attr_name a = q) (attributes e))"

text \<open>\<^verbatim>\<open>el.getAttributeNS(null, l)\<close>.\<close>

definition getAttributeNSnull :: "dom \<Rightarrow> string \<Rightarrow> string option" where
  "getAttributeNSnull e l =
     map_option attr_value
       (find (\<lambda>a. attr_namespaceURI a = None \<and> attr_localName a = l) (attributes e))"

text \<open>\<^verbatim>\<open>el.getElementsByTagNameNS(ns, l)\<close>: the descendants of the element.\<close>

definition getElementsByTagNameNS :: "dom \<Rightarrow> string \<Rightarrow> string \<Rightarrow> dom list" where
  "getElementsByTagNameNS e ns l =
     filter (\<lambda>d. namespaceURI d = Some ns \<and> localName d = l) (descendants e)"

text \<open>A document owns its document element; its queries range over the whole tree.\<close>

datatype document = Document dom

fun documentElements :: "document \<Rightarrow> dom list" where
  "documentElements (Document e) = elements e"

definition docGetElementsByTagNameNS :: "document \<Rightarrow> string \<Rightarrow> string \<Rightarrow> dom list" where
  "docGetElementsByTagNameNS doc ns l =
     filter (\<lambda>d. namespaceURI d = Some ns \<and> localName d = l) (documentElements doc)"

text \<open>\<^verbatim>\<open>doc.querySelector(name)\<close> for a type selector: the first element of that local name.\<close>

definition querySelector :: "document \<Rightarrow> string \<Rightarrow> dom option" where
  "querySelector doc l = find (\<lambda>d. localName d = l) (documentElements doc)"

section \<open>The graph model (types.ts)\<close>

datatype nodeType = author | paper

text \<open>
  \<open>GraphNode\<close>. The fields are prefixed with \<open>node_\<close>; \<open>fullLabel\<close>,
  \<open>topCitedPaperCount\<close> and the coordinates \<open>x\<close>, \<open>y\<close> are optional in the source,
  \<open>None\<close> is a field that is absent (or null).
\<close>

record GraphNode =
  node_id :: string
  node_label :: string
  node_fullLabel :: "string option"
  node_group :: string
  node_val :: number
  node_color :: string
  node_nodeType :: nodeType
  node_x :: "number option"
  node_y :: "number option"
  node_topCitedPaperCount :: "int option"

text \<open>An end of a link is \<^verbatim>\<open>string | GraphNode\<close>: an id, or the node object.\<close>

datatype endpoint = IdRef string | NodeRef GraphNode

record GraphLink =
  link_source :: endpoint
  link_target :: endpoint
  link_value :: number

record NetworkData =
  nodes :: "GraphNode list"
  links :: "GraphLink list"

section \<open>parseGexf.ts\<close>

definition GEXF_NS :: string where
  "GEXF_NS = ''http://gexf.net/1.3''"

definition VIZ_NS :: string where
  "VIZ_NS = ''http://gexf.net/1.3/viz''"

definition hexByte :: "number \<Rightarrow> string" where
  "hexByte v = padStart 2 (CHR ''0'') (toString16 v)"

definition rgbToHex :: "number \<Rightarrow> number \<Rightarrow> number \<Rightarrow> string" where
  "rgbToHex r g b =
     (let rr = mathMax (Finite 0) (mathMin (Finite 255) (mathRound r));
          gg = mathMax (Finite 0) (mathMin (Finite 255) (mathRound g));
          bb = mathMax (Finite 0) (mathMin (Finite 255) (mathRound b))
      in ''#'' @ concat (map hexByte [rr, gg, bb]))"

definition getVizChild :: "dom \<Rightarrow> string \<Rightarrow> dom option" where
  "getVizChild parent l =
     (case getElementsByTagNameNS parent VIZ_NS l of
        byNs # rest \<Rightarrow> Some byNs
      | [] \<Rightarrow>
          find (\<lambda>el. localName el = l \<or> tagName el = l \<or> tagName el = ''viz:'' @ l
                      \<or> endsWith (tagName el) ('':'' @ l))
               (children parent))"

text \<open>\<^verbatim>\<open>el.getAttribute(key) ?? el.getAttributeNS(null, key)\<close>.\<close>

definition getAttr2 :: "dom \<Rightarrow> string \<Rightarrow> string option" where
  "getAttr2 el key =
     (case getAttribute el key of Some v \<Rightarrow> Some v | None \<Rightarrow> getAttributeNSnull el key)"

definition getRgbFromColorEl :: "dom \<Rightarrow> (number \<times> number \<times> number) option" where
  "getRgbFromColorEl colorEl =
     (let get = (\<lambda>key. case getAttr2 colorEl key of Some v \<Rightarrow> parseFloat v | None \<Rightarrow> NaN);
          r = get ''r''; g = get ''g''; b = get ''b''
      in if \<not> isNaN r \<and> \<not> isNaN g \<and> \<not> isNaN b then Some (r, g, b) else None)"

definition getAttValue :: "dom \<Rightarrow> string \<Rightarrow> string option" where
  "getAttValue nodeEl attrId =
     (case getElementsByTagNameNS nodeEl GEXF_NS ''attvalues'' of
        [] \<Rightarrow> None
      | attvalues # rest \<Rightarrow>
          (case find (\<lambda>e. getAttribute e ''for'' = Some attrId)
                     (getElementsByTagNameNS attvalues GEXF_NS ''attvalue'') of
             None \<Rightarrow> None
           | Some e \<Rightarrow> getAttribute e ''value''))"

record options =
  coauthorship :: bool
  citation :: bool

text \<open>The colour of a node, lines 92 to 101 of the loop body.\<close>

definition resolveColor :: "dom option \<Rightarrow> string" where
  "resolveColor colorEl =
     (case colorEl of
        None \<Rightarrow> ''#94a3b8''
      | Some el \<Rightarrow>
          (case getAttr2 el ''hex'' of
             Some (c # cs) \<Rightarrow> (if startsWith (c # cs) ''#'' then c # cs else ''#'' @ (c # cs))
           | _ \<Rightarrow>
               (case getRgbFromColorEl el of
                  Some (r, g, b) \<Rightarrow> rgbToHex r g b
                | None \<Rightarrow> ''#94a3b8'')))"

text \<open>\<^verbatim>\<open>el ? parseFloat(el.getAttribute(k) ?? el.getAttributeNS(null, k) ?? d) : v\<close>.\<close>

definition vizNumber :: "dom option \<Rightarrow> string \<Rightarrow> string \<Rightarrow> number \<Rightarrow> number" where
  "vizNumber el k d v =
     (case el of
        None \<Rightarrow> v
      | Some e \<Rightarrow> parseFloat (case getAttr2 e k of Some s \<Rightarrow> s | None \<Rightarrow> d))"

text \<open>The body of the loop over the node elements: the node built from one element.\<close>

definition parseNode :: "options \<Rightarrow> dom \<Rightarrow> GraphNode" where
  "parseNode opts n =
     (let ident = (case getAttribute n ''id'' of Some v \<Rightarrow> v | None \<Rightarrow> []);
          label = (case getAttribute n ''label'' of Some v \<Rightarrow> v | None \<Rightarrow> ident);
          pos = getVizChild n ''position'';
          colorEl = getVizChild n ''color'';
          sizeEl = getVizChild n ''size'';
          x = vizNumber pos ''x'' ''0'' (Finite 0);
          y = vizNumber pos ''y'' ''0'' (Finite 0);
          color = resolveColor colorEl;
          val = vizNumber sizeEl ''value'' ''5'' (Finite 5);
          grp = (case getAttValue n ''cluster'' of
                   Some clusterVal \<Rightarrow> ''Cluster '' @ clusterVal
                 | None \<Rightarrow> []);
          topCited = (case getAttValue n ''d1'' of
                        Some paperCountStr \<Rightarrow> parseInt10 paperCountStr
                      | None \<Rightarrow> None);
          ntype = (if coauthorship opts then author
                   else if citation opts then
                     (let authorType = getAttValue n ''d3''
                      in if authorType = Some ''source'' \<or> authorType = Some ''citing''
                         then author else author)
                   else author)
      in \<lparr> node_id = ident, node_label = label, node_fullLabel = Some label,
           node_group = (if grp = [] then ''unknown'' else grp),
           node_val = val, node_color = color, node_nodeType = ntype,
           node_x = Some x, node_y = Some y,
           node_topCitedPaperCount = topCited \<rparr>)"

text \<open>
  \<open>nodeMap\<close> is a JavaScript \<open>Map\<close>: \<open>set\<close> on a key that is present replaces the value
  where the key stands, on a new key it appends. \<open>AList.update\<close> is this operation.
\<close>

definition buildNodeMap :: "options \<Rightarrow> dom list \<Rightarrow> (string \<times> GraphNode) list" where
  "buildNodeMap opts nodeList =
     foldl (\<lambda>m n. AList.update (node_id (parseNode opts n)) (parseNode opts n) m) [] nodeList"

text \<open>The body of the loop over the edge elements: the link pushed for one edge, if any.\<close>

definition parseEdge :: "(string \<times> GraphNode) list \<Rightarrow> dom \<Rightarrow> GraphLink option" where
  "parseEdge nodeMap e =
     (let sourceId = getAttribute e ''source'';
          targetId = getAttribute e ''target'';
          weight = parseFloat (case getAttribute e ''weight'' of Some w \<Rightarrow> w | None \<Rightarrow> ''1'')
      in case (sourceId, targetId) of
           (Some s, Some t) \<Rightarrow>
             (if s \<noteq> [] \<and> t \<noteq> [] then
                (case (map_of nodeMap s, map_of nodeMap t) of
                   (Some sn, Some tn) \<Rightarrow>
                     Some \<lparr> link_source = NodeRef sn, link_target = NodeRef tn,
                            link_value = weight \<rparr>
                 | _ \<Rightarrow> None)
              else None)
         | _ \<Rightarrow> None)"

text \<open>A thrown \<open>Error\<close>, with its message.\<close>

datatype error = Error string

text \<open>
  \<open>parseGexf\<close>, from line 68 on: the argument is the document that
  \<^verbatim>\<open>new DOMParser().parseFromString(xmlText, 'text/xml')\<close> returned.
\<close>

definition parseGexf :: "document \<Rightarrow> options \<Rightarrow> error + NetworkData" where
  "parseGexf doc opts =
     (case querySelector doc ''parsererror'' of
        Some parseError \<Rightarrow>
          Inl (Error (''GEXF parse error: '' @
                 (if textContent parseError = [] then ''Invalid XML''
                  else textContent parseError)))
      | None \<Rightarrow>
          (case docGetElementsByTagNameNS doc GEXF_NS ''graph'' of
             [] \<Rightarrow> Inl (Error ''GEXF: missing graph'')
           | graph # rest \<Rightarrow>
               (let nodeList = getElementsByTagNameNS graph GEXF_NS ''node'';
                    nodeMap = buildNodeMap opts nodeList;
                    edgeList = getElementsByTagNameNS graph GEXF_NS ''edge''
                in Inr \<lparr> nodes = map snd nodeMap,
                         links = List.map_filter (parseEdge nodeMap) edgeList \<rparr>)))"

section \<open>Community.tsx: the data of the view\<close>

text \<open>The fields of a \<open>Paper\<close> that the view reads.\<close>

record Paper =
  paper_id :: string
  paper_domainId :: string
  paper_subArea :: string

text \<open>
  \<open>ActiveFilter\<close> (DomainFilter.tsx): a domain filter carries the domain id as its value,
  a subdomain filter carries the sub-area name and the id of the parent domain.
\<close>

datatype ActiveFilter = DomainFilter string | SubdomainFilter string string

datatype viewMode = SOCIAL | CITATION

text \<open>\<^verbatim>\<open>typeof link.source === 'string' ? link.source : link.source.id\<close>.\<close>

fun endpointId :: "endpoint \<Rightarrow> string" where
  "endpointId (IdRef s) = s"
| "endpointId (NodeRef n) = node_id n"

fun filterMatches :: "Paper list \<Rightarrow> GraphNode \<Rightarrow> ActiveFilter \<Rightarrow> bool" where
  "filterMatches papersList node (DomainFilter v) = (node_group node = v)"
| "filterMatches papersList node (SubdomainFilter v d) =
     (case find (\<lambda>p. paper_id p = node_id node) papersList of
        None \<Rightarrow> False
      | Some p \<Rightarrow> paper_domainId p = d \<and> paper_subArea p = v)"

text \<open>
  The block of lines 84 to 111: the filtered copy of \<open>baseData\<close>, which is the JSON copy
  of the network chosen for the mode. The block runs when there is an active filter and the
  mode is \<open>CITATION\<close>. It keeps the ends of the links as they are, ids or node objects.
\<close>

definition filteredData :: "ActiveFilter list \<Rightarrow> Paper list \<Rightarrow> NetworkData \<Rightarrow> NetworkData" where
  "filteredData activeFilters papersList baseData =
     (let fnodes = filter (\<lambda>node. node_nodeType node \<noteq> paper
                                 \<or> list_ex (filterMatches papersList node) activeFilters)
                          (nodes baseData);
          nodeIds = set (map node_id fnodes)
      in baseData \<lparr> nodes := fnodes,
                    links := filter (\<lambda>link. endpointId (link_source link) \<in> nodeIds
                                          \<and> endpointId (link_target link) \<in> nodeIds)
                                    (links baseData) \<rparr>)"

section \<open>Community.tsx: the floating windows\<close>

text \<open>Window coordinates are finite numbers, taken as rationals.\<close>

record WindowState =
  win_id :: string
  win_node :: GraphNode
  win_x :: rat
  win_y :: rat
  win_zIndex :: int

record wmState =
  windows :: "WindowState list"
  nextZIndex :: int
  draggingId :: "string option"
  dragOffset :: "rat \<times> rat"

definition initialState :: wmState where
  "initialState = \<lparr> windows = [], nextZIndex = 10, draggingId = None, dragOffset = (0, 0) \<rparr>"

text \<open>
  \<^verbatim>\<open>containerRef.current?.clientWidth || 800\<close>: \<open>None\<close> is a container that is not
  mounted.
\<close>

definition containerWidth :: "int option \<Rightarrow> rat" where
  "containerWidth clientWidth =
     (case clientWidth of None \<Rightarrow> 800 | Some w \<Rightarrow> if w = 0 then 800 else of_int w)"

definition addWindow :: "int option \<Rightarrow> GraphNode \<Rightarrow> rat \<Rightarrow> rat \<Rightarrow> wmState \<Rightarrow> wmState" where
  "addWindow clientWidth node initialX initialY st =
     st \<lparr> windows :=
            (let prev = windows st
             in if find (\<lambda>w. win_id w = node_id node) prev \<noteq> None
                then map (\<lambda>w. if win_id w = node_id node
                               then w \<lparr> win_zIndex := nextZIndex st + 1 \<rparr> else w) prev
                else
                  (let offsetCount = length prev
                   in prev @
                      [\<lparr> win_id = node_id node, win_node = node,
                         win_x = min (initialX + 20 + of_nat offsetCount * 10)
                                     (containerWidth clientWidth - 300),
                         win_y = max (initialY - 50 + of_nat offsetCount * 10) 20,
                         win_zIndex = nextZIndex st + 1 \<rparr>])),
          nextZIndex := nextZIndex st + 1 \<rparr>"

definition closeWindow :: "string \<Rightarrow> wmState \<Rightarrow> wmState" where
  "closeWindow ident st = st \<lparr> windows := filter (\<lambda>w. win_id w \<noteq> ident) (windows st) \<rparr>"

definition bringToFront :: "string \<Rightarrow> wmState \<Rightarrow> wmState" where
  "bringToFront ident st =
     st \<lparr> windows := map (\<lambda>w. if win_id w = ident
                                then w \<lparr> win_zIndex := nextZIndex st + 1 \<rparr> else w) (windows st),
          nextZIndex := nextZIndex st + 1 \<rparr>"

definition handleMouseDown :: "rat \<times> rat \<Rightarrow> string \<Rightarrow> rat \<Rightarrow> rat \<Rightarrow> wmState \<Rightarrow> wmState" where
  "handleMouseDown client ident currentX currentY st =
     bringToFront ident
       (st \<lparr> draggingId := Some ident,
             dragOffset := (fst client - currentX, snd client - currentY) \<rparr>)"

text \<open>\<^verbatim>\<open>if (draggingId)\<close>: neither null nor the empty string.\<close>

definition handleMouseMove :: "rat \<times> rat \<Rightarrow> wmState \<Rightarrow> wmState" where
  "handleMouseMove client st =
     (case draggingId st of
        None \<Rightarrow> st
      | Some d \<Rightarrow>
          if d = [] then st
          else
            st \<lparr> windows := map (\<lambda>w. if win_id w = d
                                       then w \<lparr> win_x := fst client - fst (dragOffset st),
                                                win_y := snd client - snd (dragOffset st) \<rparr>
                                       else w) (windows st) \<rparr>)"

definition handleMouseUp :: "wmState \<Rightarrow> wmState" where
  "handleMouseUp st = st \<lparr> draggingId := None \<rparr>"

text \<open>\<^verbatim>\<open>setWindows([])\<close>, on every switch of mode or citation type.\<close>

definition clearWindows :: "wmState \<Rightarrow> wmState" where
  "clearWindows st = st \<lparr> windows := [] \<rparr>"

text \<open>The states the view reaches from its initial state by its handlers.\<close>

inductive reachable :: "wmState \<Rightarrow> bool" where
  reach_init: "reachable initialState"
| reach_add: "reachable st \<Longrightarrow> reachable (addWindow cw node ax ay st)"
| reach_close: "reachable st \<Longrightarrow> reachable (closeWindow ident st)"
| reach_down: "reachable st \<Longrightarrow> reachable (handleMouseDown client ident cx cy st)"
| reach_move: "reachable st \<Longrightarrow> reachable (handleMouseMove client st)"
| reach_up: "reachable st \<Longrightarrow> reachable (handleMouseUp st)"
| reach_clear: "reachable st \<Longrightarrow> reachable (clearWindows st)"

section \<open>Community.tsx: the choice of the layout\<close>

text \<open>\<^verbatim>\<open>typeof d.x === 'number' && typeof d.y === 'number'\<close>; NaN is a number too.\<close>

definition numericXY :: "GraphNode \<Rightarrow> bool" where
  "numericXY d = (node_x d \<noteq> None \<and> node_y d \<noteq> None)"

definition hasGexfLayout :: "NetworkData \<Rightarrow> bool" where
  "hasGexfLayout d = (length (nodes d) > 0 \<and> list_all numericXY (nodes d))"

text \<open>What \<open>d3.forceSimulation\<close> is set up with.\<close>

record simulation =
  sim_nodes :: "GraphNode list"
  sim_links :: "GraphLink list"
  sim_distance :: rat
  sim_charge :: rat
  sim_center :: "rat \<times> rat"

text \<open>The variable \<open>simulation\<close> after lines 232 to 241; \<open>None\<close> is null.\<close>

definition setupSimulation :: "viewMode \<Rightarrow> rat \<Rightarrow> NetworkData \<Rightarrow> simulation option" where
  "setupSimulation mode width d =
     (if \<not> hasGexfLayout d then
        Some \<lparr> sim_nodes = nodes d, sim_links = links d,
               sim_distance = (if mode = SOCIAL then 40 else 80),
               sim_charge = (if mode = SOCIAL then - 80 else - 120),
               sim_center = (width / 2, 600 / 2) \<rparr>
      else None)"

section \<open>Community.tsx: the highlights\<close>


text \<open>
  \<open>isHighlight\<close> and the opacity of a circle. \<^verbatim>\<open>String.prototype.toLowerCase\<close> folds
  every cased letter of Unicode and is no map over characters; it is not modelled but taken
  as the parameter \<open>toLowerCase\<close>.
\<close>




section \<open>DomainFilter.tsx and the filter tags\<close>

record Domain =
  domain_id :: string
  domain_name :: string
  domain_color :: string
  domain_subAreas :: "string list option"

fun findIndex :: "('a \<Rightarrow> bool) \<Rightarrow> 'a list \<Rightarrow> nat option" where
  "findIndex P [] = None"
| "findIndex P (x # xs) = (if P x then Some 0 else map_option Suc (findIndex P xs))"

text \<open>\<^verbatim>\<open>xs.splice(i, 1)\<close>.\<close>

definition splice1 :: "nat \<Rightarrow> 'a list \<Rightarrow> 'a list" where
  "splice1 i xs = take i xs @ drop (Suc i) xs"

text \<open>\<^verbatim>\<open>f.type === 'domain' && f.value === value\<close>.\<close>

fun isDomainFilter :: "string \<Rightarrow> ActiveFilter \<Rightarrow> bool" where
  "isDomainFilter v (DomainFilter x) = (x = v)"
| "isDomainFilter v (SubdomainFilter x d) = False"

text \<open>\<^verbatim>\<open>f.type === 'subdomain' && f.value === value && f.domainId === domainId\<close>.\<close>

fun isSubdomainFilter :: "string \<Rightarrow> string \<Rightarrow> ActiveFilter \<Rightarrow> bool" where
  "isSubdomainFilter v d (DomainFilter x) = False"
| "isSubdomainFilter v d (SubdomainFilter x d') = (x = v \<and> d' = d)"

text \<open>
  \<open>toggleFilter\<close>. The parameters \<open>(type, value, domainId)\<close> are passed as the filter entry
  they describe; \<open>domainsList\<close>, which the component reads but does not declare, and the
  property \<open>activeFilters\<close> are arguments. The result is the list given to
  \<open>onFiltersChange\<close>.
\<close>

definition toggleFilter :: "Domain list \<Rightarrow> ActiveFilter list \<Rightarrow> ActiveFilter \<Rightarrow> ActiveFilter list" where
  "toggleFilter domainsList activeFilters req =
     (case req of
        DomainFilter v \<Rightarrow>
          (case findIndex (isDomainFilter v) activeFilters of
             Some index \<Rightarrow>
               (let newFilters = splice1 index activeFilters
                in case find (\<lambda>d. domain_id d = v) domainsList of
                     Some domain \<Rightarrow>
                       foldl (\<lambda>fs subArea.
                                case findIndex (isSubdomainFilter subArea v) fs of
                                  Some subIndex \<Rightarrow> splice1 subIndex fs
                                | None \<Rightarrow> fs)
                             newFilters
                             (case domain_subAreas domain of Some l \<Rightarrow> l | None \<Rightarrow> [])
                   | None \<Rightarrow> newFilters)
           | None \<Rightarrow> activeFilters @ [DomainFilter v])
      | SubdomainFilter v domainId \<Rightarrow>
          (case findIndex (isSubdomainFilter v domainId) activeFilters of
             Some index \<Rightarrow> splice1 index activeFilters
           | None \<Rightarrow> activeFilters @ [SubdomainFilter v domainId]))"

text \<open>
  The remove button of a filter tag (Community.tsx, line 612):
  \<^verbatim>\<open>activeFilters.filter((_, i) => i !== index)\<close>.
\<close>

definition removeFilterTag :: "nat \<Rightarrow> ActiveFilter list \<Rightarrow> ActiveFilter list" where
  "removeFilterTag index activeFilters =
     map snd (filter (\<lambda>(i, f). i \<noteq> index) (enumerate 0 activeFilters))"


section \<open>The invariant of the window manager and the inputs of the examples\<close>

text \<open>No two windows share an id, and no window lies above the z-counter.\<close>

definition wmInv :: "wmState \<Rightarrow> bool" where
  "wmInv st = (distinct (map win_id (windows st))
               \<and> (\<forall>w\<in>set (windows st). win_zIndex w \<le> nextZIndex st))"

text \<open>A node as \<open>parseGexf\<close> builds it from an element that has only an id.\<close>

definition exampleNode :: "string \<Rightarrow> GraphNode" where
  "exampleNode ident =
     \<lparr> node_id = ident, node_label = ident, node_fullLabel = Some ident,
       node_group = ''unknown'', node_val = Finite 5, node_color = ''#94a3b8'',
       node_nodeType = author, node_x = Some (Finite 0), node_y = Some (Finite 0),
       node_topCitedPaperCount = None \<rparr>"

definition emptyData :: NetworkData where
  "emptyData = \<lparr> nodes = [], links = [] \<rparr>"

definition laidOutData :: NetworkData where
  "laidOutData = \<lparr> nodes = [exampleNode ''A'', exampleNode ''B''], links = [] \<rparr>"

definition partialData :: NetworkData where
  "partialData =
     \<lparr> nodes = [exampleNode ''A'', (exampleNode ''B'') \<lparr> node_y := None \<rparr>], links = [] \<rparr>"

definition oneWindowState :: wmState where
  "oneWindowState = addWindow (Some 1000) (exampleNode ''A'') 100 300 initialState"

text \<open>Elements and attributes as an XML parser builds them for a GEXF file.\<close>

definition plainAttr :: "string \<Rightarrow> string \<Rightarrow> attr" where
  "plainAttr k v =
     \<lparr> attr_namespaceURI = None, attr_name = k, attr_localName = k, attr_value = v \<rparr>"

definition gexfEl :: "string \<Rightarrow> attr list \<Rightarrow> dom list \<Rightarrow> dom" where
  "gexfEl l ats cs = Element (Some GEXF_NS) l l ats cs"

definition vizEl :: "string \<Rightarrow> attr list \<Rightarrow> dom" where
  "vizEl l ats = Element (Some VIZ_NS) (''viz:'' @ l) l ats []"

definition noOptions :: options where
  "noOptions = \<lparr> coauthorship = False, citation = False \<rparr>"

text \<open>Nodes A, B, C; an edge from A to B of weight 2 and an edge from A to the undefined Z.\<close>

definition exampleGraph :: dom where
  "exampleGraph =
     gexfEl ''graph'' []
       [gexfEl ''nodes'' []
          [gexfEl ''node'' [plainAttr ''id'' ''A''] [],
           gexfEl ''node'' [plainAttr ''id'' ''B''] [],
           gexfEl ''node'' [plainAttr ''id'' ''C''] []],
        gexfEl ''edges'' []
          [gexfEl ''edge''
             [plainAttr ''source'' ''A'', plainAttr ''target'' ''B'', plainAttr ''weight'' ''2''] [],
           gexfEl ''edge''
             [plainAttr ''source'' ''A'', plainAttr ''target'' ''Z'', plainAttr ''weight'' ''1''] []]]"

definition exampleDoc :: document where
  "exampleDoc = Document (gexfEl ''gexf'' [] [exampleGraph])"

definition exampleResult :: NetworkData where
  "exampleResult =
     \<lparr> nodes = [exampleNode ''A'', exampleNode ''B'', exampleNode ''C''],
       links = [\<lparr> link_source = NodeRef (exampleNode ''A''),
                  link_target = NodeRef (exampleNode ''B''), link_value = Finite 2 \<rparr>] \<rparr>"

text \<open>A citation network as the bundled data has it: the ends of the links are ids.\<close>

definition citationBase :: NetworkData where
  "citationBase =
     \<lparr> nodes = [(exampleNode ''P1'') \<lparr> node_nodeType := paper, node_group := ''MAN'' \<rparr>,
                (exampleNode ''P2'') \<lparr> node_nodeType := paper, node_group := ''HLT'' \<rparr>,
                exampleNode ''A1''],
       links = [\<lparr> link_source = IdRef ''P1'', link_target = IdRef ''P2'', link_value = Finite 1 \<rparr>,
                \<lparr> link_source = IdRef ''A1'', link_target = IdRef ''P1'', link_value = Finite 1 \<rparr>] \<rparr>"

text \<open>The document a browser returns for text that is not well-formed, and a well-formed
  document with no graph element.\<close>

definition errorDoc :: document where
  "errorDoc =
     Document (Element (Some ''http://www.mozilla.org/newlayout/xml/parsererror.xml'')
                 ''parsererror'' ''parsererror'' []
                 [Text ''XML Parsing Error: mismatched tag''])"

definition noGraphDoc :: document where
  "noGraphDoc = Document (gexfEl ''gexf'' [] [])"

text \<open>
  The documents of two well-formed files that have a graph with the node A: in the first
  the graph also holds an empty element named \<open>parsererror\<close>; the second is a file of
  GEXF 1.2, whose elements are in the namespace of that version.
\<close>

definition parsererrorElementDoc :: document where
  "parsererrorElementDoc =
     Document (gexfEl ''gexf'' []
       [gexfEl ''graph'' []
          [gexfEl ''node'' [plainAttr ''id'' ''A''] [],
           gexfEl ''parsererror'' [] []]])"

definition draftEl :: "string \<Rightarrow> attr list \<Rightarrow> dom list \<Rightarrow> dom" where
  "draftEl l ats cs = Element (Some ''http://www.gexf.net/1.2draft'') l l ats cs"

definition draftDoc :: document where
  "draftDoc =
     Document (draftEl ''gexf'' []
       [draftEl ''graph'' [] [draftEl ''node'' [plainAttr ''id'' ''A''] []]])"

text \<open>Two node elements with the id A, two without an id, and an edge from A to A.\<close>

definition dupDoc :: document where
  "dupDoc =
     Document (gexfEl ''gexf'' []
       [gexfEl ''graph'' []
          [gexfEl ''node'' [plainAttr ''id'' ''A'', plainAttr ''label'' ''first''] [],
           gexfEl ''node'' [plainAttr ''label'' ''n1''] [],
           gexfEl ''node'' [plainAttr ''id'' ''A'', plainAttr ''label'' ''second''] [],
           gexfEl ''node'' [plainAttr ''label'' ''n2''] [],
           gexfEl ''edge'' [plainAttr ''source'' ''A'', plainAttr ''target'' ''A''] []]])"

definition dupResult :: NetworkData where
  "dupResult =
     \<lparr> nodes = [(exampleNode ''A'') \<lparr> node_label := ''second'', node_fullLabel := Some ''second'' \<rparr>,
                (exampleNode []) \<lparr> node_label := ''n2'', node_fullLabel := Some ''n2'' \<rparr>],
       links = [\<lparr> link_source = NodeRef ((exampleNode ''A'')
                                  \<lparr> node_label := ''second'', node_fullLabel := Some ''second'' \<rparr>),
                  link_target = NodeRef ((exampleNode ''A'')
                                  \<lparr> node_label := ''second'', node_fullLabel := Some ''second'' \<rparr>),
                  link_value = Finite 1 \<rparr>] \<rparr>"

text \<open>Node elements with a colour given as hex, as r, g, b, and as both with an empty hex.\<close>

definition hexNode :: dom where
  "hexNode = gexfEl ''node'' [plainAttr ''id'' ''h''] [vizEl ''color'' [plainAttr ''hex'' ''#ff0000'']]"

definition rgbNode :: dom where
  "rgbNode =
     gexfEl ''node'' [plainAttr ''id'' ''r'']
       [vizEl ''color'' [plainAttr ''r'' ''255'', plainAttr ''g'' ''0'', plainAttr ''b'' ''0'']]"

definition emptyHexNode :: dom where
  "emptyHexNode =
     gexfEl ''node'' [plainAttr ''id'' ''e'']
       [vizEl ''color'' [plainAttr ''hex'' [], plainAttr ''r'' ''255'', plainAttr ''g'' ''0'',
                         plainAttr ''b'' ''0'']]"

text \<open>A node element whose position has an \<open>x\<close> that is no number.\<close>

definition malformedPosNode :: dom where
  "malformedPosNode =
     gexfEl ''node'' [plainAttr ''id'' ''m'']
       [vizEl ''position'' [plainAttr ''x'' ''abc'', plainAttr ''y'' ''1'']]"

text \<open>
  A node element with no position, colour or size of its own, which holds a nested node
  that has all three (the hierarchy of GEXF nests nodes this way).
\<close>

definition nestedNode :: dom where
  "nestedNode =
     gexfEl ''node'' [plainAttr ''id'' ''outer'']
       [gexfEl ''nodes'' []
          [gexfEl ''node'' [plainAttr ''id'' ''inner'']
             [vizEl ''color'' [plainAttr ''r'' ''255'', plainAttr ''g'' ''0'', plainAttr ''b'' ''0''],
              vizEl ''position'' [plainAttr ''x'' ''7'', plainAttr ''y'' ''9''],
              vizEl ''size'' [plainAttr ''value'' ''42'']]]]"





text \<open>The first two entries of \<open>DOMAINS\<close> (constants.ts).\<close>

definition exampleDomains :: "Domain list" where
  "exampleDomains =
     [\<lparr> domain_id = ''MAN'', domain_name = ''Manufacturing & Design'', domain_color = ''#2563eb'',
        domain_subAreas = Some [''Additive Mfg'', ''Smart Factories'', ''Lean Principles'', ''CAD/CAM''] \<rparr>,
      \<lparr> domain_id = ''HLT'', domain_name = ''Healthcare Systems'', domain_color = ''#dc2626'',
        domain_subAreas = Some [''Patient Flow'', ''Telehealth'', ''Medical Decision Making'',
                                ''Public Health''] \<rparr>]"

section \<open>The choice of the layout\<close>

text \<open>
  C4, as stated, at the empty dataset: every node (there is none) carries numeric
  coordinates, yet \<open>hasGexfLayout\<close> is false and a simulation is set up. An empty dataset
  arises when the filters of the citation view keep no node.
\<close>

theorem layout_empty_counterexample:
  "list_all numericXY (nodes emptyData) \<and> \<not> hasGexfLayout emptyData
   \<and> setupSimulation CITATION 800 emptyData \<noteq> None"
  by (simp add: emptyData_def hasGexfLayout_def setupSimulation_def)

text \<open>
  C4, amended: for every dataset with at least one node, if every node carries a numeric
  \<open>x\<close> and a numeric \<open>y\<close> the authoritative layout is selected and no simulation is set up;
  if some node lacks a coordinate, the layout is not authoritative and a force simulation
  over the nodes and links of the dataset is set up.
\<close>

theorem layout_mode_selection:
  assumes "nodes d \<noteq> []"
  shows "((\<forall>n\<in>set (nodes d). numericXY n) \<longrightarrow>
            hasGexfLayout d \<and> setupSimulation mode width d = None)
       \<and> ((\<exists>n\<in>set (nodes d). node_x n = None \<or> node_y n = None) \<longrightarrow>
            \<not> hasGexfLayout d
            \<and> (\<exists>s. setupSimulation mode width d = Some s \<and> sim_nodes s = nodes d
                     \<and> sim_links s = links d))"
  using assms
  by (auto simp: hasGexfLayout_def setupSimulation_def list_all_iff numericXY_def)

text \<open>Both branches of C4 at concrete datasets of two nodes.\<close>

theorem layout_mode_selection_witness:
  "nodes laidOutData \<noteq> [] \<and> list_all numericXY (nodes laidOutData)
   \<and> hasGexfLayout laidOutData \<and> setupSimulation SOCIAL 800 laidOutData = None
   \<and> nodes partialData \<noteq> [] \<and> (\<exists>n\<in>set (nodes partialData). node_x n = None \<or> node_y n = None)
   \<and> \<not> hasGexfLayout partialData \<and> setupSimulation SOCIAL 800 partialData \<noteq> None"
proof -
  have a: "nodes laidOutData \<noteq> []" and b: "\<forall>n\<in>set (nodes laidOutData). numericXY n"
    by (simp_all add: laidOutData_def exampleNode_def numericXY_def)
  have c: "nodes partialData \<noteq> []"
    and e: "\<exists>n\<in>set (nodes partialData). node_x n = None \<or> node_y n = None"
    by (simp_all add: partialData_def exampleNode_def)
  from layout_mode_selection [OF a, of SOCIAL 800] b
  have 1: "hasGexfLayout laidOutData \<and> setupSimulation SOCIAL 800 laidOutData = None"
    by blast
  from layout_mode_selection [OF c, of SOCIAL 800] e
  have 2: "\<not> hasGexfLayout partialData \<and> setupSimulation SOCIAL 800 partialData \<noteq> None"
    by auto
  from a b c e 1 2 show ?thesis by (simp add: list_all_iff)
qed

section \<open>The floating windows\<close>

lemma map_win_id_raise:
  "win_id \<circ> (\<lambda>w. if win_id w = i then w \<lparr> win_zIndex := z \<rparr> else w) = win_id"
  by (auto simp: fun_eq_iff)

lemma map_win_id_move:
  "win_id \<circ> (\<lambda>w. if win_id w = i then w \<lparr> win_x := a, win_y := b \<rparr> else w) = win_id"
  by (auto simp: fun_eq_iff)

lemma find_win_None: "find (\<lambda>w. win_id w = i) ws = None \<longleftrightarrow> i \<notin> win_id ` set ws"
  by (auto simp: find_None_iff)

lemma wmInv_init: "wmInv initialState"
  by (simp add: wmInv_def initialState_def)

lemma wmInv_bringToFront: "wmInv st \<Longrightarrow> wmInv (bringToFront i st)"
  unfolding wmInv_def bringToFront_def
  by (auto simp: map_win_id_raise)

lemma wmInv_addWindow: "wmInv st \<Longrightarrow> wmInv (addWindow cw node ax ay st)"
proof (cases "find (\<lambda>w. win_id w = node_id node) (windows st) = None")
  case True
  assume "wmInv st"
  with True show ?thesis
    unfolding wmInv_def addWindow_def
    by (auto simp: find_win_None Let_def)
next
  case False
  assume "wmInv st"
  with False show ?thesis
    unfolding wmInv_def addWindow_def
    by (auto simp: map_win_id_raise)
qed

lemma wmInv_closeWindow: "wmInv st \<Longrightarrow> wmInv (closeWindow i st)"
  unfolding wmInv_def closeWindow_def
  by (auto simp: distinct_map_filter)

lemma wmInv_handleMouseMove: "wmInv st \<Longrightarrow> wmInv (handleMouseMove c st)"
  unfolding wmInv_def handleMouseMove_def
  by (auto simp: map_win_id_move split: option.splits if_splits)

lemma wmInv_handleMouseDown: "wmInv st \<Longrightarrow> wmInv (handleMouseDown c i x y st)"
  unfolding handleMouseDown_def
  by (rule wmInv_bringToFront) (simp add: wmInv_def)

text \<open>Every handler keeps the invariant, so every reachable state has it.\<close>

lemma reachable_wmInv: "reachable st \<Longrightarrow> wmInv st"
proof (induction rule: reachable.induct)
  case reach_init
  show ?case by (rule wmInv_init)
next
  case (reach_add st cw node ax ay)
  then show ?case by (simp add: wmInv_addWindow)
next
  case (reach_close st ident)
  then show ?case by (simp add: wmInv_closeWindow)
next
  case (reach_down st client ident cx cy)
  then show ?case by (simp add: wmInv_handleMouseDown)
next
  case (reach_move st client)
  then show ?case by (simp add: wmInv_handleMouseMove)
next
  case (reach_up st)
  then show ?case by (simp add: wmInv_def handleMouseUp_def)
next
  case (reach_clear st)
  then show ?case by (simp add: wmInv_def clearWindows_def)
qed

text \<open>
  C3: in every reachable state the ids of the open windows are pairwise distinct; and
  \<open>addWindow\<close> on a node whose id has a window keeps the number of windows, changes
  nothing but the z-index of that window, which becomes \<open>nextZIndex + 1\<close>, strictly above
  the z-index every window had, and leaves the ids distinct.
\<close>

theorem addWindow_existing_brings_to_front:
  assumes "reachable st"
  shows "distinct (map win_id (windows st))
       \<and> (node_id node \<in> win_id ` set (windows st) \<longrightarrow>
            length (windows (addWindow cw node ax ay st)) = length (windows st)
          \<and> windows (addWindow cw node ax ay st)
              = map (\<lambda>w. if win_id w = node_id node
                          then w \<lparr> win_zIndex := nextZIndex st + 1 \<rparr> else w) (windows st)
          \<and> (\<forall>w\<in>set (windows st). win_zIndex w < nextZIndex st + 1)
          \<and> distinct (map win_id (windows (addWindow cw node ax ay st))))"
proof -
  have inv: "wmInv st" using assms by (rule reachable_wmInv)
  have inv': "wmInv (addWindow cw node ax ay st)" using inv by (rule wmInv_addWindow)
  have d: "distinct (map win_id (windows st))" using inv by (simp add: wmInv_def)
  have z: "\<forall>w\<in>set (windows st). win_zIndex w < nextZIndex st + 1"
    using inv by (auto simp: wmInv_def)
  have d': "distinct (map win_id (windows (addWindow cw node ax ay st)))"
    using inv' by (simp add: wmInv_def)
  have m: "node_id node \<in> win_id ` set (windows st) \<Longrightarrow>
           windows (addWindow cw node ax ay st)
             = map (\<lambda>w. if win_id w = node_id node
                         then w \<lparr> win_zIndex := nextZIndex st + 1 \<rparr> else w) (windows st)"
    by (simp add: addWindow_def find_win_None)
  have l: "node_id node \<in> win_id ` set (windows st) \<Longrightarrow>
           length (windows (addWindow cw node ax ay st)) = length (windows st)"
    by (simp add: m)
  show ?thesis
  proof (intro conjI impI)
    show "distinct (map win_id (windows st))" by (fact d)
  next
    assume "node_id node \<in> win_id ` set (windows st)"
    then show "length (windows (addWindow cw node ax ay st)) = length (windows st)" by (rule l)
  next
    assume "node_id node \<in> win_id ` set (windows st)"
    then show "windows (addWindow cw node ax ay st)
             = map (\<lambda>w. if win_id w = node_id node
                         then w \<lparr> win_zIndex := nextZIndex st + 1 \<rparr> else w) (windows st)"
      by (rule m)
  next
    show "\<forall>w\<in>set (windows st). win_zIndex w < nextZIndex st + 1" by (fact z)
  next
    show "distinct (map win_id (windows (addWindow cw node ax ay st)))" by (fact d')
  qed
qed

text \<open>C3 at the state with one window for A: opening A again keeps one window and lifts
  its z-index from 11 to 12.\<close>

theorem addWindow_existing_brings_to_front_witness:
  "reachable oneWindowState
   \<and> node_id (exampleNode ''A'') \<in> win_id ` set (windows oneWindowState)
   \<and> length (windows (addWindow (Some 1000) (exampleNode ''A'') 5 5 oneWindowState)) = 1
   \<and> map win_zIndex (windows oneWindowState) = [11]
   \<and> map win_zIndex (windows (addWindow (Some 1000) (exampleNode ''A'') 5 5 oneWindowState)) = [12]"
proof -
  have r: "reachable oneWindowState"
    unfolding oneWindowState_def by (rule reach_add) (rule reach_init)
  have w: "windows oneWindowState =
             [\<lparr> win_id = ''A'', win_node = exampleNode ''A'', win_x = 120, win_y = 250,
                win_zIndex = 11 \<rparr>]"
    and n: "nextZIndex oneWindowState = 11"
    by (simp_all add: oneWindowState_def addWindow_def initialState_def containerWidth_def
          exampleNode_def)
  have i: "node_id (exampleNode ''A'') \<in> win_id ` set (windows oneWindowState)"
    by (simp add: w exampleNode_def)
  from addWindow_existing_brings_to_front [OF r, of "exampleNode ''A''" "Some 1000" 5 5] i
  have "length (windows (addWindow (Some 1000) (exampleNode ''A'') 5 5 oneWindowState))
          = length (windows oneWindowState)
      \<and> windows (addWindow (Some 1000) (exampleNode ''A'') 5 5 oneWindowState)
          = map (\<lambda>w. if win_id w = node_id (exampleNode ''A'')
                      then w \<lparr> win_zIndex := nextZIndex oneWindowState + 1 \<rparr> else w)
                (windows oneWindowState)"
    by blast
  with r i show ?thesis by (simp add: w n exampleNode_def)
qed

text \<open>
  C8, as stated, at two inputs. With the anchor 100 pixels left of a container 1000 wide,
  and with an anchor inside a container 200 wide, the new window is placed at a negative
  \<open>x\<close>, left of the container: nothing bounds \<open>x\<close> from below (nor \<open>y\<close> from above).
\<close>

theorem addWindow_offscreen_counterexample:
  "win_x (last (windows (addWindow (Some 1000) (exampleNode ''A'') (- 100) 300 initialState))) < 0
   \<and> win_x (last (windows (addWindow (Some 200) (exampleNode ''A'') 50 100 initialState))) < 0"
  by (simp add: addWindow_def initialState_def containerWidth_def exampleNode_def)

text \<open>
  C8, amended: \<open>addWindow\<close> on a node whose id has no window appends one window; with \<open>n\<close>
  windows open before, its \<open>x\<close> is the anchor's plus \<open>20 + 10 n\<close>, cut off at the container
  width (800 when unknown) minus 300, and its \<open>y\<close> is the anchor's plus \<open>10 n - 50\<close>, raised
  to 20 at least. So the window is bounded on the right and at the top only.
\<close>

theorem addWindow_new_placement:
  assumes "find (\<lambda>w. win_id w = node_id node) (windows st) = None"
  shows "\<exists>w. windows (addWindow cw node ax ay st) = windows st @ [w]
           \<and> win_id w = node_id node
           \<and> win_x w = min (ax + 20 + 10 * of_nat (length (windows st))) (containerWidth cw - 300)
           \<and> win_y w = max (ay - 50 + 10 * of_nat (length (windows st))) 20
           \<and> win_x w \<le> containerWidth cw - 300 \<and> 20 \<le> win_y w
           \<and> win_zIndex w = nextZIndex st + 1"
  using assms by (simp add: addWindow_def Let_def mult.commute)

text \<open>C8 at the initial state: the first window for an anchor at (100, 300) is at (120, 250).\<close>

theorem addWindow_new_placement_witness:
  "find (\<lambda>w. win_id w = node_id (exampleNode ''A'')) (windows initialState) = None
   \<and> (\<exists>w. windows (addWindow (Some 1000) (exampleNode ''A'') 100 300 initialState) = [w]
           \<and> win_x w = 120 \<and> win_y w = 250)"
proof -
  have h: "find (\<lambda>w. win_id w = node_id (exampleNode ''A'')) (windows initialState) = None"
    by (simp add: initialState_def)
  from addWindow_new_placement [OF h, of "Some 1000" 100 300]
  show ?thesis using h by (simp add: initialState_def containerWidth_def) blast
qed

section \<open>The node table of the parser\<close>

lemma update_mem: "(a, b) \<in> set (AList.update k v al) \<Longrightarrow> (a, b) = (k, v) \<or> (a, b) \<in> set al"
  by (induction al) (auto split: if_splits)

lemma foldl_update_lookup:
  "map_of (foldl (\<lambda>m n. AList.update (k n) (v n) m) m0 xs)
     = map_of m0 ++ map_of (rev (map (\<lambda>n. (k n, v n)) xs))"
proof (induction xs arbitrary: m0)
  case Nil
  show ?case by simp
next
  case (Cons x xs)
  have "map_of (foldl (\<lambda>m n. AList.update (k n) (v n) m) m0 (x # xs))
          = map_of (AList.update (k x) (v x) m0) ++ map_of (rev (map (\<lambda>n. (k n, v n)) xs))"
    using Cons.IH by simp
  also have "\<dots> = map_of m0 ++ map_of (rev (map (\<lambda>n. (k n, v n)) (x # xs)))"
    by (auto simp: update_conv' fun_eq_iff map_add_def split: option.splits)
  finally show ?case .
qed

lemma map_of_keyed_find:
  "map_of (map (\<lambda>n. (k n, v n)) ys) i = map_option v (find (\<lambda>n. k n = i) ys)"
  by (induction ys) auto

lemma foldl_update_distinct:
  "distinct (map fst m0) \<Longrightarrow>
   distinct (map fst (foldl (\<lambda>m n. AList.update (k n) (v n) m) m0 xs))"
  by (induction xs arbitrary: m0) (simp_all add: distinct_update)

lemma foldl_update_keys:
  "fst ` set (foldl (\<lambda>m n. AList.update (k n) (v n) m) m0 xs) = fst ` set m0 \<union> k ` set xs"
  by (induction xs arbitrary: m0) (auto simp: dom_update)

lemma foldl_update_mem:
  "(a, b) \<in> set (foldl (\<lambda>m n. AList.update (k n) (v n) m) m0 xs) \<Longrightarrow>
   (a, b) \<in> set m0 \<or> (\<exists>n\<in>set xs. a = k n \<and> b = v n)"
proof (induction xs arbitrary: m0)
  case Nil
  then show ?case by simp
next
  case (Cons x xs)
  from Cons.prems have "(a, b) \<in> set (foldl (\<lambda>m n. AList.update (k n) (v n) m)
                                         (AList.update (k x) (v x) m0) xs)"
    by simp
  from Cons.IH [OF this] show ?case
    by (auto dest: update_mem)
qed

lemma buildNodeMap_lookup:
  "map_of (buildNodeMap opts xs) i
     = map_option (parseNode opts) (find (\<lambda>n. node_id (parseNode opts n) = i) (rev xs))"
  unfolding buildNodeMap_def
  by (simp add: foldl_update_lookup rev_map map_of_keyed_find)

lemma buildNodeMap_distinct: "distinct (map fst (buildNodeMap opts xs))"
  unfolding buildNodeMap_def by (rule foldl_update_distinct) simp

lemma buildNodeMap_keys:
  "fst ` set (buildNodeMap opts xs) = (\<lambda>n. node_id (parseNode opts n)) ` set xs"
  unfolding buildNodeMap_def by (simp add: foldl_update_keys)

lemma buildNodeMap_key_is_id: "(a, b) \<in> set (buildNodeMap opts xs) \<Longrightarrow> node_id b = a"
  unfolding buildNodeMap_def by (auto dest: foldl_update_mem)

lemma buildNodeMap_ids: "map node_id (map snd (buildNodeMap opts xs)) = map fst (buildNodeMap opts xs)"
  by (auto simp: buildNodeMap_key_is_id)

lemma parseGexf_InrD:
  assumes "parseGexf doc opts = Inr nd"
  shows "querySelector doc ''parsererror'' = None
       \<and> (\<exists>graph rest. docGetElementsByTagNameNS doc GEXF_NS ''graph'' = graph # rest
            \<and> nodes nd = map snd (buildNodeMap opts (getElementsByTagNameNS graph GEXF_NS ''node''))
            \<and> links nd = List.map_filter
                 (parseEdge (buildNodeMap opts (getElementsByTagNameNS graph GEXF_NS ''node'')))
                 (getElementsByTagNameNS graph GEXF_NS ''edge''))"
  using assms
  by (auto simp: parseGexf_def Let_def split: option.splits list.splits)

lemma parseEdge_SomeD:
  assumes "parseEdge m e = Some l"
  shows "\<exists>s t sn tn. getAttribute e ''source'' = Some s \<and> getAttribute e ''target'' = Some t
           \<and> s \<noteq> [] \<and> t \<noteq> [] \<and> map_of m s = Some sn \<and> map_of m t = Some tn
           \<and> link_source l = NodeRef sn \<and> link_target l = NodeRef tn"
  using assms
  by (auto simp: parseEdge_def Let_def split: option.splits if_splits)

lemma buildNodeMap_dom:
  "s \<in> fst ` set (buildNodeMap opts xs) \<longleftrightarrow> map_of (buildNodeMap opts xs) s \<noteq> None"
  by (simp add: map_of_eq_None_iff)

lemma map_filter_mem: "y \<in> set (List.map_filter f xs) \<Longrightarrow> \<exists>x\<in>set xs. f x = Some y"
  by (induction xs) (auto split: option.splits)

lemma buildNodeMap_node_ids:
  "node_id ` set (map snd (buildNodeMap opts xs)) = fst ` set (buildNodeMap opts xs)"
proof -
  have "set (map node_id (map snd (buildNodeMap opts xs))) = set (map fst (buildNodeMap opts xs))"
    by (simp only: buildNodeMap_ids)
  then show ?thesis by (simp only: set_map)
qed

lemma buildNodeMap_lookup_id:
  "map_of (buildNodeMap opts xs) s = Some sn \<Longrightarrow> node_id sn = s \<and> sn \<in> set (map snd (buildNodeMap opts xs))"
  by (auto dest!: map_of_SomeD simp: buildNodeMap_key_is_id intro: rev_image_eqI)

lemma parseEdge_resolves:
  "parseEdge (buildNodeMap opts xs) e \<noteq> None \<longleftrightarrow>
     (\<exists>s t. getAttribute e ''source'' = Some s \<and> getAttribute e ''target'' = Some t
            \<and> s \<noteq> [] \<and> t \<noteq> []
            \<and> s \<in> node_id ` set (map snd (buildNodeMap opts xs))
            \<and> t \<in> node_id ` set (map snd (buildNodeMap opts xs)))"
  unfolding buildNodeMap_node_ids buildNodeMap_dom
  by (auto simp: parseEdge_def Let_def split: option.splits)

lemma parseEdge_ends:
  assumes "parseEdge (buildNodeMap opts xs) e = Some l"
  shows "endpointId (link_source l) = the (getAttribute e ''source'')
       \<and> endpointId (link_target l) = the (getAttribute e ''target'')
       \<and> link_value l = parseFloat (case getAttribute e ''weight'' of Some w \<Rightarrow> w | None \<Rightarrow> ''1'')"
  using assms
  by (auto simp: parseEdge_def Let_def split: option.splits if_splits dest: buildNodeMap_lookup_id)

lemma parseGexf_links_in_nodes:
  assumes "parseGexf doc opts = Inr nd" and "l \<in> set (links nd)"
  shows "\<exists>s t. link_source l = NodeRef s \<and> link_target l = NodeRef t
              \<and> s \<in> set (nodes nd) \<and> t \<in> set (nodes nd)"
proof -
  from parseGexf_InrD [OF assms(1)] obtain graph rest where
    n: "nodes nd = map snd (buildNodeMap opts (getElementsByTagNameNS graph GEXF_NS ''node''))"
    and l: "links nd = List.map_filter
                 (parseEdge (buildNodeMap opts (getElementsByTagNameNS graph GEXF_NS ''node'')))
                 (getElementsByTagNameNS graph GEXF_NS ''edge'')"
    by blast
  from assms(2) l obtain e where
    "parseEdge (buildNodeMap opts (getElementsByTagNameNS graph GEXF_NS ''node'')) e = Some l"
    by (auto dest: map_filter_mem)
  from parseEdge_SomeD [OF this] obtain s t sn tn where
    st: "map_of (buildNodeMap opts (getElementsByTagNameNS graph GEXF_NS ''node'')) s = Some sn"
        "map_of (buildNodeMap opts (getElementsByTagNameNS graph GEXF_NS ''node'')) t = Some tn"
    and ends: "link_source l = NodeRef sn" "link_target l = NodeRef tn"
    by blast
  from st have "sn \<in> set (nodes nd)" "tn \<in> set (nodes nd)"
    unfolding n by (auto dest: buildNodeMap_lookup_id)
  with ends show ?thesis by blast
qed

lemma parseGexf_links_kept:
  assumes "parseGexf doc opts = Inr nd"
  shows "\<exists>graph rest. docGetElementsByTagNameNS doc GEXF_NS ''graph'' = graph # rest
     \<and> map (\<lambda>l. (endpointId (link_source l), endpointId (link_target l), link_value l)) (links nd)
       = map (\<lambda>e. (the (getAttribute e ''source''), the (getAttribute e ''target''),
                    parseFloat (case getAttribute e ''weight'' of Some w \<Rightarrow> w | None \<Rightarrow> ''1'')))
           (filter (\<lambda>e. \<exists>s t. getAttribute e ''source'' = Some s
                          \<and> getAttribute e ''target'' = Some t \<and> s \<noteq> [] \<and> t \<noteq> []
                          \<and> s \<in> node_id ` set (nodes nd) \<and> t \<in> node_id ` set (nodes nd))
                   (getElementsByTagNameNS graph GEXF_NS ''edge''))"
proof -
  from parseGexf_InrD [OF assms] obtain graph rest where
    g: "docGetElementsByTagNameNS doc GEXF_NS ''graph'' = graph # rest"
    and n: "nodes nd = map snd (buildNodeMap opts (getElementsByTagNameNS graph GEXF_NS ''node''))"
    and l: "links nd = List.map_filter
                 (parseEdge (buildNodeMap opts (getElementsByTagNameNS graph GEXF_NS ''node'')))
                 (getElementsByTagNameNS graph GEXF_NS ''edge'')"
    by blast
  let ?m = "buildNodeMap opts (getElementsByTagNameNS graph GEXF_NS ''node'')"
  have "map (\<lambda>l. (endpointId (link_source l), endpointId (link_target l), link_value l))
            (List.map_filter (parseEdge ?m) es)
      = map (\<lambda>e. (the (getAttribute e ''source''), the (getAttribute e ''target''),
                   parseFloat (case getAttribute e ''weight'' of Some w \<Rightarrow> w | None \<Rightarrow> ''1'')))
            (filter (\<lambda>e. parseEdge ?m e \<noteq> None) es)" for es
    by (induction es) (auto simp: parseEdge_ends split: option.splits)
  then show ?thesis
    unfolding l n parseEdge_resolves using g by blast
qed

lemma filteredData_nodes_links:
  "links (filteredData fs ps base)
     = filter (\<lambda>l. endpointId (link_source l) \<in> node_id ` set (nodes (filteredData fs ps base))
                  \<and> endpointId (link_target l) \<in> node_id ` set (nodes (filteredData fs ps base)))
              (links base)"
  by (simp add: filteredData_def Let_def)

text \<open>The example document evaluates to the expected network.\<close>

lemma exampleDoc_parses: "parseGexf exampleDoc noOptions = Inr exampleResult"
  by code_simp


section \<open>The links of a network resolve\<close>

text \<open>
  C1, as stated, at a citation network whose links name their ends by id, as the bundled
  networks do, filtered by the domain MAN: the link that the filter keeps has the strings
  A1 and P1 as its ends, not node objects of the node list. The filter compares ids and
  never replaces an end by a node.
\<close>

theorem filter_keeps_id_ends_counterexample:
  "links (filteredData [DomainFilter ''MAN''] [] citationBase)
     = [\<lparr> link_source = IdRef ''A1'', link_target = IdRef ''P1'', link_value = Finite 1 \<rparr>]
   \<and> link_source (hd (links (filteredData [DomainFilter ''MAN''] [] citationBase))) = IdRef ''A1''
   \<and> link_target (hd (links (filteredData [DomainFilter ''MAN''] [] citationBase))) = IdRef ''P1''"
  by (simp add: filteredData_def citationBase_def exampleNode_def Let_def)

text \<open>
  C1, amended: in every \<open>NetworkData\<close> that \<open>parseGexf\<close> returns, the source and the target
  of every link are node objects of its node list, and the links are, in order, those of the
  edge elements whose source and target ids are non-empty ids of nodes of the result: every
  other edge is left out and no error is raised. In every \<open>NetworkData\<close> that the filter of
  the citation view returns, each end of every link, an id or a node object as the base data
  has it, has the id of a node of its node list, and the links are exactly the links of the
  base data with this property. For the document with the nodes A, B, C and the edges from A
  to B (weight 2) and from A to Z, the result has the nodes A, B, C and the one link from A
  to B.
\<close>

theorem links_resolve_to_present_nodes:
  "(parseGexf doc opts = Inr nd \<longrightarrow>
      (\<forall>l\<in>set (links nd). \<exists>s t. link_source l = NodeRef s \<and> link_target l = NodeRef t
                                  \<and> s \<in> set (nodes nd) \<and> t \<in> set (nodes nd))
    \<and> (\<exists>graph rest. docGetElementsByTagNameNS doc GEXF_NS ''graph'' = graph # rest
         \<and> map (\<lambda>l. (endpointId (link_source l), endpointId (link_target l), link_value l))
               (links nd)
           = map (\<lambda>e. (the (getAttribute e ''source''), the (getAttribute e ''target''),
                        parseFloat (case getAttribute e ''weight'' of
                                      Some w \<Rightarrow> w | None \<Rightarrow> ''1'')))
               (filter (\<lambda>e. \<exists>s t. getAttribute e ''source'' = Some s
                              \<and> getAttribute e ''target'' = Some t \<and> s \<noteq> [] \<and> t \<noteq> []
                              \<and> s \<in> node_id ` set (nodes nd) \<and> t \<in> node_id ` set (nodes nd))
                       (getElementsByTagNameNS graph GEXF_NS ''edge''))))
   \<and> (\<forall>l\<in>set (links (filteredData fs ps base)).
          endpointId (link_source l) \<in> node_id ` set (nodes (filteredData fs ps base))
        \<and> endpointId (link_target l) \<in> node_id ` set (nodes (filteredData fs ps base)))
   \<and> links (filteredData fs ps base)
       = filter (\<lambda>l. endpointId (link_source l) \<in> node_id ` set (nodes (filteredData fs ps base))
                    \<and> endpointId (link_target l) \<in> node_id ` set (nodes (filteredData fs ps base)))
                (links base)
   \<and> parseGexf exampleDoc noOptions = Inr exampleResult"
proof (intro conjI impI ballI)
  fix l
  assume "parseGexf doc opts = Inr nd" and "l \<in> set (links nd)"
  then show "\<exists>s t. link_source l = NodeRef s \<and> link_target l = NodeRef t
                  \<and> s \<in> set (nodes nd) \<and> t \<in> set (nodes nd)"
    by (rule parseGexf_links_in_nodes)
next
  assume "parseGexf doc opts = Inr nd"
  then show "\<exists>graph rest. docGetElementsByTagNameNS doc GEXF_NS ''graph'' = graph # rest
         \<and> map (\<lambda>l. (endpointId (link_source l), endpointId (link_target l), link_value l))
               (links nd)
           = map (\<lambda>e. (the (getAttribute e ''source''), the (getAttribute e ''target''),
                        parseFloat (case getAttribute e ''weight'' of
                                      Some w \<Rightarrow> w | None \<Rightarrow> ''1'')))
               (filter (\<lambda>e. \<exists>s t. getAttribute e ''source'' = Some s
                              \<and> getAttribute e ''target'' = Some t \<and> s \<noteq> [] \<and> t \<noteq> []
                              \<and> s \<in> node_id ` set (nodes nd) \<and> t \<in> node_id ` set (nodes nd))
                       (getElementsByTagNameNS graph GEXF_NS ''edge''))"
    by (rule parseGexf_links_kept)
next
  fix l
  assume "l \<in> set (links (filteredData fs ps base))"
  then have "l \<in> set (filter (\<lambda>l. endpointId (link_source l) \<in> node_id ` set (nodes (filteredData fs ps base))
                    \<and> endpointId (link_target l) \<in> node_id ` set (nodes (filteredData fs ps base)))
                (links base))"
    by (simp only: filteredData_nodes_links [symmetric])
  then show "endpointId (link_source l) \<in> node_id ` set (nodes (filteredData fs ps base))"
    and "endpointId (link_target l) \<in> node_id ` set (nodes (filteredData fs ps base))"
    by simp_all
next
  show "links (filteredData fs ps base)
       = filter (\<lambda>l. endpointId (link_source l) \<in> node_id ` set (nodes (filteredData fs ps base))
                    \<and> endpointId (link_target l) \<in> node_id ` set (nodes (filteredData fs ps base)))
                (links base)"
    by (rule filteredData_nodes_links)
next
  show "parseGexf exampleDoc noOptions = Inr exampleResult"
    by (rule exampleDoc_parses)
qed

text \<open>C1 at the example document, and at a citation network filtered by the domain MAN.\<close>

theorem links_resolve_to_present_nodes_witness:
  "parseGexf exampleDoc noOptions = Inr exampleResult
   \<and> (\<exists>s t. link_source (hd (links exampleResult)) = NodeRef s
            \<and> link_target (hd (links exampleResult)) = NodeRef t
            \<and> s \<in> set (nodes exampleResult) \<and> t \<in> set (nodes exampleResult))
   \<and> map node_id (nodes (filteredData [DomainFilter ''MAN''] [] citationBase)) = [''P1'', ''A1'']
   \<and> links (filteredData [DomainFilter ''MAN''] [] citationBase)
       = [\<lparr> link_source = IdRef ''A1'', link_target = IdRef ''P1'', link_value = Finite 1 \<rparr>]"
proof -
  note t = links_resolve_to_present_nodes
             [of exampleDoc noOptions exampleResult "[DomainFilter ''MAN'']" "[]" citationBase]
  from t have p: "parseGexf exampleDoc noOptions = Inr exampleResult" by blast
  have h: "hd (links exampleResult) \<in> set (links exampleResult)"
    by (simp add: exampleResult_def)
  from t p h have 1: "\<exists>s t. link_source (hd (links exampleResult)) = NodeRef s
            \<and> link_target (hd (links exampleResult)) = NodeRef t
            \<and> s \<in> set (nodes exampleResult) \<and> t \<in> set (nodes exampleResult)"
    by blast
  have 2: "map node_id (nodes (filteredData [DomainFilter ''MAN''] [] citationBase)) = [''P1'', ''A1'']"
    by (simp add: filteredData_def citationBase_def exampleNode_def Let_def)
  have 3: "links (filteredData [DomainFilter ''MAN''] [] citationBase)
       = [\<lparr> link_source = IdRef ''A1'', link_target = IdRef ''P1'', link_value = Finite 1 \<rparr>]"
    by (simp add: filteredData_def citationBase_def exampleNode_def Let_def)
  from p 1 2 3 show ?thesis by blast
qed

section \<open>Node identities and the outcomes of the parser\<close>

lemma distinct_map_eq: "distinct (map f xs) \<Longrightarrow> x \<in> set xs \<Longrightarrow> y \<in> set xs \<Longrightarrow> f x = f y \<Longrightarrow> x = y"
  by (auto simp: distinct_map dest: inj_onD)

text \<open>
  C10: in every \<open>NetworkData\<close> that \<open>parseGexf\<close> returns the node ids are pairwise distinct;
  the ids are those of the node elements of the graph, and each node of the result is built
  from the last node element that has its id; a link end that has the id of a node of the
  result is that node; a node element with no id attribute gets the empty id.
\<close>

theorem parseGexf_ids_distinct:
  assumes "parseGexf doc opts = Inr nd"
  shows "distinct (map node_id (nodes nd))
     \<and> (\<exists>graph rest. docGetElementsByTagNameNS doc GEXF_NS ''graph'' = graph # rest
          \<and> node_id ` set (nodes nd)
              = (\<lambda>e. node_id (parseNode opts e)) ` set (getElementsByTagNameNS graph GEXF_NS ''node'')
          \<and> (\<forall>n\<in>set (nodes nd).
                \<exists>e. find (\<lambda>e. node_id (parseNode opts e) = node_id n)
                          (rev (getElementsByTagNameNS graph GEXF_NS ''node'')) = Some e
                    \<and> n = parseNode opts e))
     \<and> (\<forall>l\<in>set (links nd). \<forall>n\<in>set (nodes nd).
            (endpointId (link_source l) = node_id n \<longrightarrow> link_source l = NodeRef n)
          \<and> (endpointId (link_target l) = node_id n \<longrightarrow> link_target l = NodeRef n))
     \<and> (\<forall>e. getAttribute e ''id'' = None \<longrightarrow> node_id (parseNode opts e) = [])"
proof -
  from parseGexf_InrD [OF assms] obtain graph rest where
    g: "docGetElementsByTagNameNS doc GEXF_NS ''graph'' = graph # rest"
    and n: "nodes nd = map snd (buildNodeMap opts (getElementsByTagNameNS graph GEXF_NS ''node''))"
    by blast
  let ?xs = "getElementsByTagNameNS graph GEXF_NS ''node''"
  let ?m = "buildNodeMap opts ?xs"
  have d: "distinct (map node_id (nodes nd))"
    unfolding n by (simp only: buildNodeMap_ids buildNodeMap_distinct)
  have ids: "node_id ` set (nodes nd) = (\<lambda>e. node_id (parseNode opts e)) ` set ?xs"
    unfolding n by (simp only: buildNodeMap_node_ids buildNodeMap_keys)
  have last: "\<exists>e. find (\<lambda>e. node_id (parseNode opts e) = node_id x) (rev ?xs) = Some e
                 \<and> x = parseNode opts e" if "x \<in> set (nodes nd)" for x
  proof -
    from that obtain k where k: "(k, x) \<in> set ?m" unfolding n by auto
    then have "node_id x = k" by (rule buildNodeMap_key_is_id)
    moreover from k have "map_of ?m k = Some x"
      using buildNodeMap_distinct by (simp add: map_of_eq_Some_iff)
    ultimately show ?thesis
      by (auto simp: buildNodeMap_lookup)
  qed
  have ends: "(endpointId (link_source l) = node_id x \<longrightarrow> link_source l = NodeRef x)
            \<and> (endpointId (link_target l) = node_id x \<longrightarrow> link_target l = NodeRef x)"
    if "l \<in> set (links nd)" and "x \<in> set (nodes nd)" for l x
  proof -
    from parseGexf_links_in_nodes [OF assms that(1)] obtain s t where
      st: "link_source l = NodeRef s" "link_target l = NodeRef t"
          "s \<in> set (nodes nd)" "t \<in> set (nodes nd)"
      by blast
    with d that(2) show ?thesis
      by (auto dest: distinct_map_eq)
  qed
  have noid: "\<forall>e. getAttribute e ''id'' = None \<longrightarrow> node_id (parseNode opts e) = []"
    by (simp add: parseNode_def Let_def)
  from d g ids last ends noid show ?thesis by blast
qed

text \<open>The document with two elements of id A and two without an id.\<close>

lemma dupDoc_parses: "parseGexf dupDoc noOptions = Inr dupResult"
  by code_simp

text \<open>C10 at that document: two nodes remain, the later definitions.\<close>

theorem parseGexf_ids_distinct_witness:
  "parseGexf dupDoc noOptions = Inr dupResult
   \<and> distinct (map node_id (nodes dupResult))
   \<and> map node_id (nodes dupResult) = [''A'', []]
   \<and> map node_label (nodes dupResult) = [''second'', ''n2'']"
proof -
  have p: "parseGexf dupDoc noOptions = Inr dupResult" by (rule dupDoc_parses)
  from parseGexf_ids_distinct [OF p] have "distinct (map node_id (nodes dupResult))" by blast
  with p show ?thesis by (simp add: dupResult_def exampleNode_def)
qed

text \<open>The order of the node table: the ids in the order of their first element.\<close>

lemma foldl_update_key_order:
  "map fst (foldl (\<lambda>m n. AList.update (k n) (v n) m) [] xs) = rev (remdups (rev (map k xs)))"
proof (induction xs rule: rev_induct)
  case Nil
  show ?case by simp
next
  case (snoc x xs)
  have "map fst (foldl (\<lambda>m n. AList.update (k n) (v n) m) [] (xs @ [x]))
          = map fst (AList.update (k x) (v x) (foldl (\<lambda>m n. AList.update (k n) (v n) m) [] xs))"
    by simp
  also have "\<dots> = (if k x \<in> set (rev (remdups (rev (map k xs))))
                    then rev (remdups (rev (map k xs)))
                    else rev (remdups (rev (map k xs))) @ [k x])"
    by (simp only: update_keys snoc.IH)
  also have "\<dots> = rev (remdups (rev (map k (xs @ [x]))))"
    by simp
  finally show ?case .
qed

lemma buildNodeMap_order:
  "map node_id (map snd (buildNodeMap opts xs))
     = rev (remdups (rev (map (\<lambda>e. node_id (parseNode opts e)) xs)))"
  by (simp only: buildNodeMap_ids) (simp add: buildNodeMap_def foldl_update_key_order)

lemma buildNodeMap_last:
  assumes "x \<in> set (map snd (buildNodeMap opts xs))"
  shows "\<exists>e. find (\<lambda>e. node_id (parseNode opts e) = node_id x) (rev xs) = Some e
            \<and> x = parseNode opts e"
proof -
  from assms obtain k where k: "(k, x) \<in> set (buildNodeMap opts xs)" by auto
  then have "node_id x = k" by (rule buildNodeMap_key_is_id)
  moreover from k have "map_of (buildNodeMap opts xs) k = Some x"
    using buildNodeMap_distinct by (simp add: map_of_eq_Some_iff)
  ultimately show ?thesis
    by (auto simp: buildNodeMap_lookup)
qed

text \<open>
  C2, as stated, at the documents of two well-formed files that have a graph. The first
  holds an element named \<open>parsererror\<close>: \<open>parseGexf\<close> throws the parse error, with
  \<open>Invalid XML\<close> for a diagnostic. The second is a GEXF 1.2 file, its graph in the
  namespace of that version: \<open>parseGexf\<close> throws \<open>GEXF: missing graph\<close>.
\<close>

theorem parseGexf_outcomes_counterexample:
  "map localName (documentElements parsererrorElementDoc)
     = [''gexf'', ''graph'', ''node'', ''parsererror'']
   \<and> parseGexf parsererrorElementDoc noOptions = Inl (Error ''GEXF parse error: Invalid XML'')
   \<and> map localName (documentElements draftDoc) = [''gexf'', ''graph'', ''node'']
   \<and> parseGexf draftDoc noOptions = Inl (Error ''GEXF: missing graph'')"
  by code_simp

text \<open>
  C2, amended: for the document that the XML parser returns for the input, \<open>parseGexf\<close> has
  three outcomes. If the document holds an element named \<open>parsererror\<close> (by which a browser
  reports text that is not well-formed) the call fails with the message
  \<open>GEXF parse error:\<close> followed by the text of the first such element, or by
  \<open>Invalid XML\<close> when it has none. Otherwise, if the document holds no element \<open>graph\<close> in
  the namespace \<open>http://gexf.net/1.3\<close>, it fails with the message \<open>GEXF: missing graph\<close>,
  which no parse error message equals. Otherwise it returns a \<open>NetworkData\<close>, whatever the
  node and edge elements of the first such graph lack: its node ids are the ids of the node
  elements in the order of their first occurrence, each node is built from the last node
  element with its id, the ends of its links are nodes of its node list, and its links are,
  in order, those of the edge elements whose two ids are non-empty ids of its nodes.
\<close>

theorem parseGexf_outcomes:
  "(case querySelector doc ''parsererror'' of
      Some parseError \<Rightarrow>
        parseGexf doc opts
          = Inl (Error (''GEXF parse error: '' @
                   (if textContent parseError = [] then ''Invalid XML''
                    else textContent parseError)))
    | None \<Rightarrow>
        (case docGetElementsByTagNameNS doc GEXF_NS ''graph'' of
           [] \<Rightarrow> parseGexf doc opts = Inl (Error ''GEXF: missing graph'')
         | graph # rest \<Rightarrow>
             (\<exists>nd. parseGexf doc opts = Inr nd
                \<and> map node_id (nodes nd)
                    = rev (remdups (rev (map (\<lambda>e. node_id (parseNode opts e))
                                             (getElementsByTagNameNS graph GEXF_NS ''node''))))
                \<and> (\<forall>n\<in>set (nodes nd).
                      \<exists>e. find (\<lambda>e. node_id (parseNode opts e) = node_id n)
                                (rev (getElementsByTagNameNS graph GEXF_NS ''node'')) = Some e
                          \<and> n = parseNode opts e)
                \<and> (\<forall>l\<in>set (links nd).
                      \<exists>s t. link_source l = NodeRef s \<and> link_target l = NodeRef t
                            \<and> s \<in> set (nodes nd) \<and> t \<in> set (nodes nd))
                \<and> map (\<lambda>l. (endpointId (link_source l), endpointId (link_target l),
                              link_value l)) (links nd)
                    = map (\<lambda>e. (the (getAttribute e ''source''), the (getAttribute e ''target''),
                                 parseFloat (case getAttribute e ''weight'' of
                                               Some w \<Rightarrow> w | None \<Rightarrow> ''1'')))
                        (filter (\<lambda>e. \<exists>s t. getAttribute e ''source'' = Some s
                                       \<and> getAttribute e ''target'' = Some t \<and> s \<noteq> [] \<and> t \<noteq> []
                                       \<and> s \<in> node_id ` set (nodes nd)
                                       \<and> t \<in> node_id ` set (nodes nd))
                                (getElementsByTagNameNS graph GEXF_NS ''edge'')))))
   \<and> ''GEXF parse error: '' @ diag \<noteq> ''GEXF: missing graph''"
proof (intro conjI)
  show "''GEXF parse error: '' @ diag \<noteq> ''GEXF: missing graph''" by simp
next
  show "case querySelector doc ''parsererror'' of
      Some parseError \<Rightarrow>
        parseGexf doc opts
          = Inl (Error (''GEXF parse error: '' @
                   (if textContent parseError = [] then ''Invalid XML''
                    else textContent parseError)))
    | None \<Rightarrow>
        (case docGetElementsByTagNameNS doc GEXF_NS ''graph'' of
           [] \<Rightarrow> parseGexf doc opts = Inl (Error ''GEXF: missing graph'')
         | graph # rest \<Rightarrow>
             (\<exists>nd. parseGexf doc opts = Inr nd
                \<and> map node_id (nodes nd)
                    = rev (remdups (rev (map (\<lambda>e. node_id (parseNode opts e))
                                             (getElementsByTagNameNS graph GEXF_NS ''node''))))
                \<and> (\<forall>n\<in>set (nodes nd).
                      \<exists>e. find (\<lambda>e. node_id (parseNode opts e) = node_id n)
                                (rev (getElementsByTagNameNS graph GEXF_NS ''node'')) = Some e
                          \<and> n = parseNode opts e)
                \<and> (\<forall>l\<in>set (links nd).
                      \<exists>s t. link_source l = NodeRef s \<and> link_target l = NodeRef t
                            \<and> s \<in> set (nodes nd) \<and> t \<in> set (nodes nd))
                \<and> map (\<lambda>l. (endpointId (link_source l), endpointId (link_target l),
                              link_value l)) (links nd)
                    = map (\<lambda>e. (the (getAttribute e ''source''), the (getAttribute e ''target''),
                                 parseFloat (case getAttribute e ''weight'' of
                                               Some w \<Rightarrow> w | None \<Rightarrow> ''1'')))
                        (filter (\<lambda>e. \<exists>s t. getAttribute e ''source'' = Some s
                                       \<and> getAttribute e ''target'' = Some t \<and> s \<noteq> [] \<and> t \<noteq> []
                                       \<and> s \<in> node_id ` set (nodes nd)
                                       \<and> t \<in> node_id ` set (nodes nd))
                                (getElementsByTagNameNS graph GEXF_NS ''edge''))))"
  proof (cases "querySelector doc ''parsererror''")
    case (Some parseError)
    then show ?thesis by (simp add: parseGexf_def)
  next
    case None
    show ?thesis
    proof (cases "docGetElementsByTagNameNS doc GEXF_NS ''graph''")
      case Nil
      with None show ?thesis by (simp add: parseGexf_def)
    next
      case (Cons graph rest)
      from None Cons obtain nd where p: "parseGexf doc opts = Inr nd"
        by (simp add: parseGexf_def Let_def)
      from parseGexf_InrD [OF p] Cons
      have n: "nodes nd = map snd (buildNodeMap opts (getElementsByTagNameNS graph GEXF_NS ''node''))"
        by auto
      have order: "map node_id (nodes nd)
                    = rev (remdups (rev (map (\<lambda>e. node_id (parseNode opts e))
                                             (getElementsByTagNameNS graph GEXF_NS ''node''))))"
        unfolding n by (rule buildNodeMap_order)
      have last: "\<forall>x\<in>set (nodes nd).
                      \<exists>e. find (\<lambda>e. node_id (parseNode opts e) = node_id x)
                                (rev (getElementsByTagNameNS graph GEXF_NS ''node'')) = Some e
                          \<and> x = parseNode opts e"
        unfolding n by (blast intro: buildNodeMap_last)
      have ends: "\<forall>l\<in>set (links nd).
                      \<exists>s t. link_source l = NodeRef s \<and> link_target l = NodeRef t
                            \<and> s \<in> set (nodes nd) \<and> t \<in> set (nodes nd)"
        using parseGexf_links_in_nodes [OF p] by blast
      from parseGexf_links_kept [OF p] Cons
      have kept: "map (\<lambda>l. (endpointId (link_source l), endpointId (link_target l),
                              link_value l)) (links nd)
                    = map (\<lambda>e. (the (getAttribute e ''source''), the (getAttribute e ''target''),
                                 parseFloat (case getAttribute e ''weight'' of
                                               Some w \<Rightarrow> w | None \<Rightarrow> ''1'')))
                        (filter (\<lambda>e. \<exists>s t. getAttribute e ''source'' = Some s
                                       \<and> getAttribute e ''target'' = Some t \<and> s \<noteq> [] \<and> t \<noteq> []
                                       \<and> s \<in> node_id ` set (nodes nd)
                                       \<and> t \<in> node_id ` set (nodes nd))
                                (getElementsByTagNameNS graph GEXF_NS ''edge''))"
        by auto
      from p order last ends kept
      have "\<exists>nd. parseGexf doc opts = Inr nd
                \<and> map node_id (nodes nd)
                    = rev (remdups (rev (map (\<lambda>e. node_id (parseNode opts e))
                                             (getElementsByTagNameNS graph GEXF_NS ''node''))))
                \<and> (\<forall>n\<in>set (nodes nd).
                      \<exists>e. find (\<lambda>e. node_id (parseNode opts e) = node_id n)
                                (rev (getElementsByTagNameNS graph GEXF_NS ''node'')) = Some e
                          \<and> n = parseNode opts e)
                \<and> (\<forall>l\<in>set (links nd).
                      \<exists>s t. link_source l = NodeRef s \<and> link_target l = NodeRef t
                            \<and> s \<in> set (nodes nd) \<and> t \<in> set (nodes nd))
                \<and> map (\<lambda>l. (endpointId (link_source l), endpointId (link_target l),
                              link_value l)) (links nd)
                    = map (\<lambda>e. (the (getAttribute e ''source''), the (getAttribute e ''target''),
                                 parseFloat (case getAttribute e ''weight'' of
                                               Some w \<Rightarrow> w | None \<Rightarrow> ''1'')))
                        (filter (\<lambda>e. \<exists>s t. getAttribute e ''source'' = Some s
                                       \<and> getAttribute e ''target'' = Some t \<and> s \<noteq> [] \<and> t \<noteq> []
                                       \<and> s \<in> node_id ` set (nodes nd)
                                       \<and> t \<in> node_id ` set (nodes nd))
                                (getElementsByTagNameNS graph GEXF_NS ''edge''))"
        by (intro exI [of _ nd] conjI)
      with None Cons show ?thesis by simp
    qed
  qed
qed

text \<open>
  C2 at a parser error document, at a document with no graph, and at the example, where the
  edge to the undefined Z is among the element's absences that cause no failure.
\<close>

theorem parseGexf_outcomes_witness:
  "parseGexf errorDoc noOptions
     = Inl (Error ''GEXF parse error: XML Parsing Error: mismatched tag'')
   \<and> parseGexf noGraphDoc noOptions = Inl (Error ''GEXF: missing graph'')
   \<and> (\<exists>nd. parseGexf exampleDoc noOptions = Inr nd
            \<and> (\<exists>s t. link_source (hd (links nd)) = NodeRef s
                     \<and> link_target (hd (links nd)) = NodeRef t))"
proof -
  have 1: "querySelector errorDoc ''parsererror''
             = Some (Element (Some ''http://www.mozilla.org/newlayout/xml/parsererror.xml'')
                 ''parsererror'' ''parsererror'' []
                 [Text ''XML Parsing Error: mismatched tag''])"
    by (simp add: querySelector_def errorDoc_def)
  have 2: "querySelector noGraphDoc ''parsererror'' = None"
    "docGetElementsByTagNameNS noGraphDoc GEXF_NS ''graph'' = []"
    by (simp_all add: querySelector_def noGraphDoc_def docGetElementsByTagNameNS_def gexfEl_def)
  have 3: "querySelector exampleDoc ''parsererror'' = None"
    "docGetElementsByTagNameNS exampleDoc GEXF_NS ''graph'' = [exampleGraph]"
    by code_simp+
  from parseGexf_outcomes [of errorDoc noOptions] 1
  have a: "parseGexf errorDoc noOptions
     = Inl (Error ''GEXF parse error: XML Parsing Error: mismatched tag'')"
    by simp
  from parseGexf_outcomes [of noGraphDoc noOptions] 2
  have b: "parseGexf noGraphDoc noOptions = Inl (Error ''GEXF: missing graph'')"
    by simp
  from parseGexf_outcomes [of exampleDoc noOptions] 3
  obtain nd where nd: "parseGexf exampleDoc noOptions = Inr nd"
    and ends: "\<forall>l\<in>set (links nd).
                 \<exists>s t. link_source l = NodeRef s \<and> link_target l = NodeRef t
                       \<and> s \<in> set (nodes nd) \<and> t \<in> set (nodes nd)"
    by auto
  from nd have "nd = exampleResult" by (simp add: exampleDoc_parses)
  then have "hd (links nd) \<in> set (links nd)" by (simp add: exampleResult_def)
  with ends have "\<exists>s t. link_source (hd (links nd)) = NodeRef s
                      \<and> link_target (hd (links nd)) = NodeRef t"
    by blast
  with a b nd show ?thesis by blast
qed


section \<open>The colour and the defaults of a node\<close>

lemma parseFloat_0: "parseFloat ''0'' = Finite 0"
  by code_simp

lemma parseFloat_5: "parseFloat ''5'' = Finite 5"
  by code_simp

lemma hexDigit_0: "hexDigit 0 = CHR ''0''"
  by (simp add: hexDigit_def)

lemma hexNat_small: "n < 16 \<Longrightarrow> hexNat n = [hexDigit n]"
  by (subst hexNat.simps) simp

lemma hexNat_byte: "16 \<le> n \<Longrightarrow> n < 256 \<Longrightarrow> hexNat n = [hexDigit (n div 16), hexDigit (n mod 16)]"
  by (subst hexNat.simps) (simp add: hexNat_small less_mult_imp_div_less)

lemma hexByte_int:
  assumes "0 \<le> k" and "k \<le> 255"
  shows "hexByte (Finite (of_int k)) = [hexDigit (nat k div 16), hexDigit (nat k mod 16)]"
proof (cases "nat k < 16")
  case True
  with assms show ?thesis
    by (simp add: hexByte_def padStart_def hexNat_small hexDigit_0)
next
  case False
  with assms have "16 \<le> nat k" "nat k < 256" by simp_all
  with assms show ?thesis
    by (simp add: hexByte_def padStart_def hexNat_byte)
qed

lemma clamp_channel:
  assumes "v \<noteq> NaN"
  shows "\<exists>k. mathMax (Finite 0) (mathMin (Finite 255) (mathRound v)) = Finite (of_int k)
            \<and> 0 \<le> k \<and> k \<le> 255"
proof (cases v)
  case NaN
  with assms show ?thesis by simp
next
  case (Finite q)
  have "max 0 (min 255 (of_int \<lfloor>q + 1 / 2\<rfloor>)) = (of_int (max 0 (min 255 \<lfloor>q + 1 / 2\<rfloor>)) :: rat)"
    by (simp add: max_def min_def)
  with Finite show ?thesis
    by (intro exI [of _ "max 0 (min 255 \<lfloor>q + 1 / 2\<rfloor>)"]) simp
next
  case PosInfinity
  then show ?thesis by (intro exI [of _ 255]) simp
next
  case NegInfinity
  then show ?thesis by (intro exI [of _ 0]) simp
qed

lemma getRgb_not_NaN:
  "getRgbFromColorEl el = Some (r, g, b) \<Longrightarrow> r \<noteq> NaN \<and> g \<noteq> NaN \<and> b \<noteq> NaN"
  by (auto simp: getRgbFromColorEl_def Let_def isNaN_def split: if_splits)

lemma node_color_resolve: "node_color (parseNode opts n) = resolveColor (getVizChild n ''color'')"
  by (simp add: parseNode_def Let_def)

text \<open>
  C5, as stated, at a colour element that carries an empty \<open>hex\<close> attribute beside
  r = 255, g = 0, b = 0: the hex attribute is not absent, yet the colour is rebuilt from the
  components (\<open>if (hex)\<close> takes the empty string as no value).
\<close>

theorem color_empty_hex_counterexample:
  "getVizChild emptyHexNode ''color''
     = Some (vizEl ''color'' [plainAttr ''hex'' [], plainAttr ''r'' ''255'', plainAttr ''g'' ''0'',
                              plainAttr ''b'' ''0''])
   \<and> getAttribute (vizEl ''color'' [plainAttr ''hex'' [], plainAttr ''r'' ''255'',
                                     plainAttr ''g'' ''0'', plainAttr ''b'' ''0'']) ''hex'' = Some []
   \<and> node_color (parseNode noOptions emptyHexNode) = ''#ff0000''"
  by code_simp

text \<open>
  C5, amended: for a node with a colour element, a hex attribute that is present and not
  empty gives the colour (with a leading \<open>#\<close> added when it has none), whatever the
  components are; when the hex attribute is absent or empty and r, g, b are all numbers, the
  colour is \<open>rgbToHex r g b\<close>, in which each channel is rounded and clamped to an integer
  from 0 to 255 and written as two hex digits; when a component is missing too, the colour
  is the default gray. A node with hex \<open>#ff0000\<close> and a node with r, g, b = 255, 0, 0 both
  get \<open>#ff0000\<close>.
\<close>

theorem color_resolution:
  assumes "getVizChild n ''color'' = Some el"
  shows "(\<forall>h. getAttr2 el ''hex'' = Some h \<and> h \<noteq> [] \<longrightarrow>
            node_color (parseNode opts n) = (if startsWith h ''#'' then h else ''#'' @ h))
       \<and> (getAttr2 el ''hex'' = None \<or> getAttr2 el ''hex'' = Some [] \<longrightarrow>
            (\<forall>r g b. getRgbFromColorEl el = Some (r, g, b) \<longrightarrow>
               node_color (parseNode opts n) = rgbToHex r g b
             \<and> (\<exists>i j k. 0 \<le> i \<and> i \<le> 255 \<and> 0 \<le> j \<and> j \<le> 255 \<and> 0 \<le> k \<and> k \<le> 255
                  \<and> mathMax (Finite 0) (mathMin (Finite 255) (mathRound r)) = Finite (of_int i)
                  \<and> mathMax (Finite 0) (mathMin (Finite 255) (mathRound g)) = Finite (of_int j)
                  \<and> mathMax (Finite 0) (mathMin (Finite 255) (mathRound b)) = Finite (of_int k)
                  \<and> rgbToHex r g b
                      = ''#'' @ [hexDigit (nat i div 16), hexDigit (nat i mod 16),
                                 hexDigit (nat j div 16), hexDigit (nat j mod 16),
                                 hexDigit (nat k div 16), hexDigit (nat k mod 16)]))
          \<and> (getRgbFromColorEl el = None \<longrightarrow> node_color (parseNode opts n) = ''#94a3b8''))
       \<and> node_color (parseNode opts hexNode) = ''#ff0000''
       \<and> node_color (parseNode opts rgbNode) = ''#ff0000''"
proof (intro conjI allI impI)
  fix h
  assume "getAttr2 el ''hex'' = Some h \<and> h \<noteq> []"
  then show "node_color (parseNode opts n) = (if startsWith h ''#'' then h else ''#'' @ h)"
    using assms by (cases h) (simp_all add: node_color_resolve resolveColor_def)
next
  fix r g b
  assume hex: "getAttr2 el ''hex'' = None \<or> getAttr2 el ''hex'' = Some []"
    and rgb: "getRgbFromColorEl el = Some (r, g, b)"
  from hex rgb show c: "node_color (parseNode opts n) = rgbToHex r g b"
    using assms by (auto simp: node_color_resolve resolveColor_def)
  from getRgb_not_NaN [OF rgb] have "r \<noteq> NaN" "g \<noteq> NaN" "b \<noteq> NaN" by simp_all
  from clamp_channel [OF this(1)] clamp_channel [OF this(2)] clamp_channel [OF this(3)]
  obtain i j k where
    i: "mathMax (Finite 0) (mathMin (Finite 255) (mathRound r)) = Finite (of_int i)" "0 \<le> i" "i \<le> 255"
    and j: "mathMax (Finite 0) (mathMin (Finite 255) (mathRound g)) = Finite (of_int j)" "0 \<le> j" "j \<le> 255"
    and k: "mathMax (Finite 0) (mathMin (Finite 255) (mathRound b)) = Finite (of_int k)" "0 \<le> k" "k \<le> 255"
    by blast
  have "rgbToHex r g b
          = ''#'' @ [hexDigit (nat i div 16), hexDigit (nat i mod 16),
                     hexDigit (nat j div 16), hexDigit (nat j mod 16),
                     hexDigit (nat k div 16), hexDigit (nat k mod 16)]"
    unfolding rgbToHex_def Let_def i(1) j(1) k(1)
    by (simp add: hexByte_int [OF i(2,3)] hexByte_int [OF j(2,3)] hexByte_int [OF k(2,3)])
  with i j k
  show "\<exists>i j k. 0 \<le> i \<and> i \<le> 255 \<and> 0 \<le> j \<and> j \<le> 255 \<and> 0 \<le> k \<and> k \<le> 255
                  \<and> mathMax (Finite 0) (mathMin (Finite 255) (mathRound r)) = Finite (of_int i)
                  \<and> mathMax (Finite 0) (mathMin (Finite 255) (mathRound g)) = Finite (of_int j)
                  \<and> mathMax (Finite 0) (mathMin (Finite 255) (mathRound b)) = Finite (of_int k)
                  \<and> rgbToHex r g b
                      = ''#'' @ [hexDigit (nat i div 16), hexDigit (nat i mod 16),
                                 hexDigit (nat j div 16), hexDigit (nat j mod 16),
                                 hexDigit (nat k div 16), hexDigit (nat k mod 16)]"
    by blast
next
  assume "getAttr2 el ''hex'' = None \<or> getAttr2 el ''hex'' = Some []"
    and "getRgbFromColorEl el = None"
  then show "node_color (parseNode opts n) = ''#94a3b8''"
    using assms by (auto simp: node_color_resolve resolveColor_def)
next
  have "resolveColor (getVizChild hexNode ''color'') = ''#ff0000''" by code_simp
  then show "node_color (parseNode opts hexNode) = ''#ff0000''"
    by (simp only: node_color_resolve)
next
  have "resolveColor (getVizChild rgbNode ''color'') = ''#ff0000''" by code_simp
  then show "node_color (parseNode opts rgbNode) = ''#ff0000''"
    by (simp only: node_color_resolve)
qed

text \<open>C5 at the node with r, g, b = 255, 0, 0 and no hex attribute.\<close>

theorem color_resolution_witness:
  "getVizChild rgbNode ''color''
     = Some (vizEl ''color'' [plainAttr ''r'' ''255'', plainAttr ''g'' ''0'', plainAttr ''b'' ''0''])
   \<and> getAttr2 (vizEl ''color'' [plainAttr ''r'' ''255'', plainAttr ''g'' ''0'',
                                 plainAttr ''b'' ''0'']) ''hex'' = None
   \<and> getRgbFromColorEl (vizEl ''color'' [plainAttr ''r'' ''255'', plainAttr ''g'' ''0'',
                                          plainAttr ''b'' ''0''])
       = Some (Finite 255, Finite 0, Finite 0)
   \<and> node_color (parseNode noOptions rgbNode) = rgbToHex (Finite 255) (Finite 0) (Finite 0)
   \<and> node_color (parseNode noOptions hexNode) = ''#ff0000''"
proof -
  let ?el = "vizEl ''color'' [plainAttr ''r'' ''255'', plainAttr ''g'' ''0'', plainAttr ''b'' ''0'']"
  have a: "getVizChild rgbNode ''color'' = Some ?el" by code_simp
  have b: "getAttr2 ?el ''hex'' = None" by code_simp
  have c: "getRgbFromColorEl ?el = Some (Finite 255, Finite 0, Finite 0)" by code_simp
  from color_resolution [OF a, of noOptions] b c
  have "node_color (parseNode noOptions rgbNode) = rgbToHex (Finite 255) (Finite 0) (Finite 0)"
    and "node_color (parseNode noOptions hexNode) = ''#ff0000''"
    by blast+
  with a b c show ?thesis by blast
qed

text \<open>
  The fields of the node built from an element, by what \<open>getVizChild\<close> and \<open>getAttValue\<close>
  find for it: the defaults apply where they find nothing.
\<close>

lemma parseNode_fields:
  "(getAttribute n ''label'' = None \<longrightarrow> node_label (parseNode opts n) = node_id (parseNode opts n))
 \<and> (\<forall>l. getAttribute n ''label'' = Some l \<longrightarrow> node_label (parseNode opts n) = l)
 \<and> (getVizChild n ''position'' = None \<longrightarrow>
       node_x (parseNode opts n) = Some (Finite 0) \<and> node_y (parseNode opts n) = Some (Finite 0))
 \<and> (\<forall>p. getVizChild n ''position'' = Some p \<longrightarrow>
       node_x (parseNode opts n)
         = Some (case getAttr2 p ''x'' of None \<Rightarrow> Finite 0 | Some s \<Rightarrow> parseFloat s)
     \<and> node_y (parseNode opts n)
         = Some (case getAttr2 p ''y'' of None \<Rightarrow> Finite 0 | Some s \<Rightarrow> parseFloat s))
 \<and> (getVizChild n ''color'' = None \<longrightarrow> node_color (parseNode opts n) = ''#94a3b8'')
 \<and> (getVizChild n ''size'' = None \<longrightarrow> node_val (parseNode opts n) = Finite 5)
 \<and> (\<forall>e. getVizChild n ''size'' = Some e \<and> getAttr2 e ''value'' = None \<longrightarrow>
       node_val (parseNode opts n) = Finite 5)
 \<and> node_nodeType (parseNode opts n) = author"
proof -
  have nid: "node_id (parseNode o1 e) = (case getAttribute e ''id'' of Some v \<Rightarrow> v | None \<Rightarrow> [])"
    for o1 e by (simp add: parseNode_def Let_def)
  have nlabel: "node_label (parseNode o1 e)
      = (case getAttribute e ''label'' of Some v \<Rightarrow> v | None \<Rightarrow> node_id (parseNode o1 e))"
    for o1 e by (simp add: parseNode_def Let_def split: option.splits)
  have nx: "node_x (parseNode o1 e) = Some (vizNumber (getVizChild e ''position'') ''x'' ''0'' (Finite 0))"
    and ny: "node_y (parseNode o1 e) = Some (vizNumber (getVizChild e ''position'') ''y'' ''0'' (Finite 0))"
    and nval: "node_val (parseNode o1 e) = vizNumber (getVizChild e ''size'') ''value'' ''5'' (Finite 5)"
    and ncolor: "node_color (parseNode o1 e) = resolveColor (getVizChild e ''color'')"
    and ntype: "node_nodeType (parseNode o1 e) = author"
    for o1 e by (simp_all add: parseNode_def Let_def split: option.splits)
  show ?thesis
    unfolding nid nlabel nx ny nval ncolor ntype
    by (auto simp: vizNumber_def parseFloat_0 parseFloat_5 resolveColor_def split: option.splits)
qed

text \<open>
  C7 on the code, at two node elements. The first has a position with \<open>x="abc"\<close> and
  \<open>y="1"\<close>: its \<open>x\<close> is NaN, not 0, while the same parser guards the colour components and
  the paper count against NaN. The second has an id and one child, a \<open>nodes\<close> element: it
  has no position, colour or size of its own, yet it gets the colour \<open>#ff0000\<close>, the
  position (7, 9) and the size 42 of the node nested in it, not \<open>#94a3b8\<close>, (0, 0) and 5:
  \<open>getVizChild\<close>, documented to find a viz child, first searches all descendants.
\<close>

theorem node_defaults_on_code:
  "node_x (parseNode noOptions malformedPosNode) = Some NaN
   \<and> node_y (parseNode noOptions malformedPosNode) = Some (Finite 1)
   \<and> map localName (children nestedNode) = [''nodes'']
   \<and> node_color (parseNode noOptions nestedNode) = ''#ff0000''
   \<and> node_x (parseNode noOptions nestedNode) = Some (Finite 7)
   \<and> node_y (parseNode noOptions nestedNode) = Some (Finite 9)
   \<and> node_val (parseNode noOptions nestedNode) = Finite 42"
  by code_simp


section \<open>The search highlight\<close>







section \<open>The removal of a domain filter\<close>

lemma isDomainFilter_eq: "isDomainFilter v f \<longleftrightarrow> f = DomainFilter v"
  by (cases f) auto

lemma isSubdomainFilter_eq: "isSubdomainFilter s v f \<longleftrightarrow> f = SubdomainFilter s v"
  by (cases f) auto

lemma findIndex_None: "findIndex P xs = None \<longleftrightarrow> (\<forall>x\<in>set xs. \<not> P x)"
  by (induction xs) auto

lemma splice_first:
  "(case findIndex (\<lambda>f. f = x) xs of Some i \<Rightarrow> splice1 i xs | None \<Rightarrow> xs) = remove1 x xs"
proof (induction xs)
  case Nil
  show ?case by simp
next
  case (Cons a xs)
  then show ?case
    by (cases "findIndex (\<lambda>f. f = x) xs") (auto simp: splice1_def)
qed

lemma foldl_remove1_filter:
  "distinct fs \<Longrightarrow> foldl (\<lambda>fs s. remove1 (g s) fs) fs l = filter (\<lambda>f. f \<notin> g ` set l) fs"
proof (induction l arbitrary: fs)
  case Nil
  show ?case by simp
next
  case (Cons s l)
  from Cons.prems have "distinct (remove1 (g s) fs)" by simp
  from Cons.IH [OF this] Cons.prems show ?case
    by (auto simp: distinct_remove1_removeAll removeAll_filter_not_eq intro: filter_cong)
qed

text \<open>
  What \<open>toggleFilter\<close> removes with a domain filter, when no entry occurs twice: the
  subdomain filters of that domain whose sub-area is listed for the domain in
  \<open>domainsList\<close>.
\<close>

lemma toggleFilter_remove_domain:
  assumes "DomainFilter v \<in> set fs"
    and "find (\<lambda>d. domain_id d = v) ds = Some dm"
    and "distinct fs"
  shows "toggleFilter ds fs (DomainFilter v)
           = filter (\<lambda>f. f \<noteq> DomainFilter v
                        \<and> f \<notin> (\<lambda>s. SubdomainFilter s v)
                                ` set (case domain_subAreas dm of Some l \<Rightarrow> l | None \<Rightarrow> [])) fs"
proof -
  from assms(1) obtain i where i: "findIndex (isDomainFilter v) fs = Some i"
    by (cases "findIndex (isDomainFilter v) fs") (auto simp: findIndex_None isDomainFilter_eq)
  have r: "splice1 i fs = remove1 (DomainFilter v) fs"
    using splice_first [where x = "DomainFilter v" and xs = fs] i
    by (simp add: isDomainFilter_eq [abs_def])
  have d: "distinct (remove1 (DomainFilter v) fs)" using assms(3) by simp
  have "toggleFilter ds fs (DomainFilter v)
          = foldl (\<lambda>fs s. remove1 (SubdomainFilter s v) fs) (remove1 (DomainFilter v) fs)
              (case domain_subAreas dm of Some l \<Rightarrow> l | None \<Rightarrow> [])"
    using i assms(2) r
    by (simp add: toggleFilter_def Let_def isSubdomainFilter_eq [abs_def] splice_first)
  also have "\<dots> = filter (\<lambda>f. f \<notin> (\<lambda>s. SubdomainFilter s v)
                                ` set (case domain_subAreas dm of Some l \<Rightarrow> l | None \<Rightarrow> []))
                      (remove1 (DomainFilter v) fs)"
    by (rule foldl_remove1_filter [OF d])
  also have "\<dots> = filter (\<lambda>f. f \<noteq> DomainFilter v
                        \<and> f \<notin> (\<lambda>s. SubdomainFilter s v)
                                ` set (case domain_subAreas dm of Some l \<Rightarrow> l | None \<Rightarrow> [])) fs"
    using assms(3)
    by (auto simp: distinct_remove1_removeAll removeAll_filter_not_eq intro: filter_cong)
  finally show ?thesis .
qed

text \<open>
  C6 on the code. The remove button of the tag of the domain MAN leaves both sub-area
  filters of MAN in place. \<open>toggleFilter\<close> on MAN leaves a sub-area filter of MAN whose
  sub-area the list of domains does not name, and every sub-area filter of MAN when the list
  has no entry for MAN. Where both sub-areas are listed, \<open>toggleFilter\<close> removes all three
  entries, as its comments say.
\<close>

theorem domain_removal_leaves_subdomains:
  "removeFilterTag 0 [DomainFilter ''MAN'', SubdomainFilter ''Additive Mfg'' ''MAN'',
                      SubdomainFilter ''CAD/CAM'' ''MAN'']
     = [SubdomainFilter ''Additive Mfg'' ''MAN'', SubdomainFilter ''CAD/CAM'' ''MAN'']
   \<and> toggleFilter exampleDomains
        [DomainFilter ''MAN'', SubdomainFilter ''Additive Mfg'' ''MAN'',
         SubdomainFilter ''Robotics'' ''MAN''] (DomainFilter ''MAN'')
     = [SubdomainFilter ''Robotics'' ''MAN'']
   \<and> toggleFilter []
        [DomainFilter ''MAN'', SubdomainFilter ''Additive Mfg'' ''MAN''] (DomainFilter ''MAN'')
     = [SubdomainFilter ''Additive Mfg'' ''MAN'']
   \<and> toggleFilter exampleDomains
        [DomainFilter ''MAN'', SubdomainFilter ''Additive Mfg'' ''MAN'',
         SubdomainFilter ''CAD/CAM'' ''MAN''] (DomainFilter ''MAN'')
     = []"
  by code_simp


end
